theory Spec2Isabelle
  imports Complex_Main "HOL-Library.Word" "HOL-Library.Log_Nat"
begin

unbundle bit_operations_syntax

section \<open>The VCNL4010 driver (adafruit\_vcnl4010.py)\<close>

text \<open>
  Python integers are modelled as \<^typ>\<open>int\<close> (unbounded; \<open>AND\<close>, \<open>OR\<close>, \<open>NOT\<close>,
  \<open>push_bit\<close> and \<open>drop_bit\<close> on \<^typ>\<open>int\<close> are Python's \<open>&\<close>, \<open>|\<close>, \<open>~\<close>, \<open><<\<close> and
  \<open>>>\<close> on two's complement integers of unbounded width, and \<open>div\<close> is Python's
  floor division \<open>//\<close>).  The elements of a \<open>bytearray\<close> and the bytes on the bus are
  \<^typ>\<open>8 word\<close>.
\<close>

type_synonym byte = "8 word"

subsection \<open>Internal and user-facing constants\<close>

definition VCNL4010_I2CADDR_DEFAULT :: int where "VCNL4010_I2CADDR_DEFAULT = 0x13"
definition VCNL4010_COMMAND :: int where "VCNL4010_COMMAND = 0x80"
definition VCNL4010_PRODUCTID :: int where "VCNL4010_PRODUCTID = 0x81"
definition VCNL4010_PROXRATE :: int where "VCNL4010_PROXRATE = 0x82"
definition VCNL4010_IRLED :: int where "VCNL4010_IRLED = 0x83"
definition VCNL4010_AMBIENTPARAMETER :: int where "VCNL4010_AMBIENTPARAMETER = 0x84"
definition VCNL4010_AMBIENTDATA :: int where "VCNL4010_AMBIENTDATA = 0x85"
definition VCNL4010_PROXIMITYDATA :: int where "VCNL4010_PROXIMITYDATA = 0x87"
definition VCNL4010_INTCONTROL :: int where "VCNL4010_INTCONTROL = 0x89"
definition VCNL4010_PROXIMITYADJUST :: int where "VCNL4010_PROXIMITYADJUST = 0x8A"
definition VCNL4010_INTSTAT :: int where "VCNL4010_INTSTAT = 0x8E"
definition VCNL4010_MODTIMING :: int where "VCNL4010_MODTIMING = 0x8F"
definition VCNL4010_MEASUREAMBIENT :: int where "VCNL4010_MEASUREAMBIENT = 0x10"
definition VCNL4010_MEASUREPROXIMITY :: int where "VCNL4010_MEASUREPROXIMITY = 0x08"
definition VCNL4010_AMBIENTREADY :: int where "VCNL4010_AMBIENTREADY = 0x40"
definition VCNL4010_PROXIMITYREADY :: int where "VCNL4010_PROXIMITYREADY = 0x20"

text \<open>Number of proximity measurements per second.\<close>

definition SAMPLERATE_1_95 :: int where "SAMPLERATE_1_95 = 0"
definition SAMPLERATE_3_90625 :: int where "SAMPLERATE_3_90625 = 1"
definition SAMPLERATE_7_8125 :: int where "SAMPLERATE_7_8125 = 2"
definition SAMPLERATE_16_625 :: int where "SAMPLERATE_16_625 = 3"
definition SAMPLERATE_31_25 :: int where "SAMPLERATE_31_25 = 4"
definition SAMPLERATE_62_5 :: int where "SAMPLERATE_62_5 = 5"
definition SAMPLERATE_125 :: int where "SAMPLERATE_125 = 6"
definition SAMPLERATE_250 :: int where "SAMPLERATE_250 = 7"

text \<open>Proximity modulator timing.\<close>

definition FREQUENCY_3M125 :: int where "FREQUENCY_3M125 = 3"
definition FREQUENCY_1M5625 :: int where "FREQUENCY_1M5625 = 2"
definition FREQUENCY_781K25 :: int where "FREQUENCY_781K25 = 1"
definition FREQUENCY_390K625 :: int where "FREQUENCY_390K625 = 0"

subsection \<open>The bus: the driver's external collaborator\<close>

text \<open>
  The driver talks to the sensor through two calls of the bus-device library,
  \<open>i2c.write(buf, end=...)\<close> and
  \<open>i2c.write_then_readinto(out, in, out_end=..., in_start=...)\<close>.
  The library and the sensor are not part of the module, so the sensor's behaviour is a
  parameter of every driver function: a value of type \<open>'d i2c_device\<close> says how a
  device in state \<open>'d\<close> reacts to the bytes written to it (\<open>on_write\<close>) and, for a write
  followed by a read of \<open>n\<close> bytes, which byte it clocks out at each position and what
  state it is left in (\<open>on_write_then_read\<close>).  Bus transactions are total here: a
  failing transaction (the library's \<open>OSError\<close>) is outside the model, and so are the
  locking of the bus (\<open>with self._device as i2c\<close>) and the creation of the bus handle
  in the constructor, which address one device at a fixed address.

  The driver's state is the class-level scratch buffer \<open>_BUFFER = bytearray(3)\<close>, the
  state of the device at the other end of the bus, and the history of the transactions
  performed so far.  The history is observation only: no definition below reads it.
\<close>

datatype transaction =
  Write "byte list"
  | WriteThenRead "byte list" "byte list"

record 'd i2c_device =
  on_write :: "byte list \<Rightarrow> 'd \<Rightarrow> 'd"
  on_write_then_read :: "byte list \<Rightarrow> nat \<Rightarrow> 'd \<Rightarrow> (nat \<Rightarrow> byte) \<times> 'd"

record 'd state =
  BUFFER :: "byte list"
  device :: 'd
  history :: "transaction list"

text \<open>\<open>i2c.write(self._BUFFER, end=e)\<close>: the bytes \<open>_BUFFER[0:e]\<close> go to the device.\<close>

definition i2c_write :: "'d i2c_device \<Rightarrow> nat \<Rightarrow> 'd state \<Rightarrow> 'd state" where
  "i2c_write dev e s =
     (let out = take e (BUFFER s)
      in s\<lparr>device := on_write dev out (device s),
           history := history s @ [Write out]\<rparr>)"

text \<open>
  \<open>i2c.write_then_readinto(self._BUFFER, self._BUFFER, out_end=e, in_start=i)\<close>: the
  bytes \<open>_BUFFER[0:e]\<close> go to the device, and the device's answer fills
  \<open>_BUFFER[i:]\<close>, that is \<open>len(_BUFFER) - i\<close> bytes.
\<close>

definition i2c_write_then_readinto :: "'d i2c_device \<Rightarrow> nat \<Rightarrow> nat \<Rightarrow> 'd state \<Rightarrow> 'd state" where
  "i2c_write_then_readinto dev e i s =
     (let buf = BUFFER s;
          out = take e buf;
          n = length buf - i;
          (rx, d') = on_write_then_read dev out n (device s);
          bytes = map rx [0..<n]
      in s\<lparr>BUFFER := take i buf @ bytes,
           device := d',
           history := history s @ [WriteThenRead out bytes]\<rparr>)"

subsection \<open>Register primitives\<close>

text \<open>
  \<open>_read_u8\<close> and \<open>_read_u16BE\<close> perform the same transaction: the address byte is
  written from \<open>_BUFFER[0:1]\<close> and the answer fills \<open>_BUFFER[1:3]\<close>, two bytes.
  \<open>_read_u8\<close> returns the first of them, \<open>_read_u16BE\<close> both, big-endian.
\<close>

definition read_u8 :: "'d i2c_device \<Rightarrow> int \<Rightarrow> 'd state \<Rightarrow> int \<times> 'd state" where
  "read_u8 dev address s =
     (let s1 = s\<lparr>BUFFER := (BUFFER s)[0 := word_of_int (address AND 0xFF)]\<rparr>;
          s2 = i2c_write_then_readinto dev 1 1 s1
      in (uint (BUFFER s2 ! 1), s2))"

definition read_u16BE :: "'d i2c_device \<Rightarrow> int \<Rightarrow> 'd state \<Rightarrow> int \<times> 'd state" where
  "read_u16BE dev address s =
     (let s1 = s\<lparr>BUFFER := (BUFFER s)[0 := word_of_int (address AND 0xFF)]\<rparr>;
          s2 = i2c_write_then_readinto dev 1 1 s1
      in (push_bit 8 (uint (BUFFER s2 ! 1)) OR uint (BUFFER s2 ! 2), s2))"

definition write_u8 :: "'d i2c_device \<Rightarrow> int \<Rightarrow> int \<Rightarrow> 'd state \<Rightarrow> 'd state" where
  "write_u8 dev address val s =
     (let s1 = s\<lparr>BUFFER := (BUFFER s)[0 := word_of_int (address AND 0xFF)]\<rparr>;
          s2 = s1\<lparr>BUFFER := (BUFFER s1)[1 := word_of_int (val AND 0xFF)]\<rparr>
      in i2c_write dev 2 s2)"

subsection \<open>Configuration accessors\<close>

text \<open>
  A failing \<open>assert\<close> raises \<open>AssertionError\<close>, the identity check raises
  \<open>RuntimeError\<close>.  An exception leaves the state as it was when it was raised, so a
  function that can raise returns the error or the value together with the state.
\<close>

datatype error = AssertionError | RuntimeError string

definition led_current :: "'d i2c_device \<Rightarrow> 'd state \<Rightarrow> int \<times> 'd state" where
  "led_current dev s =
     (let (r, s') = read_u8 dev VCNL4010_IRLED s in (r AND 0x3F, s'))"

definition led_current_setter :: "'d i2c_device \<Rightarrow> int \<Rightarrow> 'd state \<Rightarrow> (error + unit) \<times> 'd state" where
  "led_current_setter dev val s =
     (if 0 \<le> val \<and> val \<le> 20
      then (Inr (), write_u8 dev VCNL4010_IRLED val s)
      else (Inl AssertionError, s))"

definition led_current_mA :: "'d i2c_device \<Rightarrow> 'd state \<Rightarrow> int \<times> 'd state" where
  "led_current_mA dev s =
     (let (r, s') = led_current dev s in (r * 10, s'))"

definition led_current_mA_setter :: "'d i2c_device \<Rightarrow> int \<Rightarrow> 'd state \<Rightarrow> (error + unit) \<times> 'd state" where
  "led_current_mA_setter dev val s = led_current_setter dev (val div 10) s"

definition samplerate :: "'d i2c_device \<Rightarrow> 'd state \<Rightarrow> int \<times> 'd state" where
  "samplerate dev s = read_u8 dev VCNL4010_PROXRATE s"

definition samplerate_setter :: "'d i2c_device \<Rightarrow> int \<Rightarrow> 'd state \<Rightarrow> (error + unit) \<times> 'd state" where
  "samplerate_setter dev val s =
     (if 0 \<le> val \<and> val \<le> 7
      then (Inr (), write_u8 dev VCNL4010_PROXRATE val s)
      else (Inl AssertionError, s))"

definition frequency :: "'d i2c_device \<Rightarrow> 'd state \<Rightarrow> int \<times> 'd state" where
  "frequency dev s =
     (let (r, s') = read_u8 dev VCNL4010_MODTIMING s in (drop_bit 3 r AND 0x03, s'))"

definition frequency_setter :: "'d i2c_device \<Rightarrow> int \<Rightarrow> 'd state \<Rightarrow> (error + unit) \<times> 'd state" where
  "frequency_setter dev val s =
     (if 0 \<le> val \<and> val \<le> 3
      then (let (timing, s1) = read_u8 dev VCNL4010_MODTIMING s;
                timing = timing AND NOT 0b00011000;
                timing = timing OR (push_bit 3 val AND 0xFF)
            in (Inr (), write_u8 dev VCNL4010_MODTIMING timing s1))
      else (Inl AssertionError, s))"

subsection \<open>Construction\<close>

text \<open>
  \<open>__init__\<close>, after the bus handle has been created: the identity check, then the three
  setters in the order of the source, each of which could raise, then the write to the
  interrupt-control register.
\<close>

definition init :: "'d i2c_device \<Rightarrow> 'd state \<Rightarrow> (error + unit) \<times> 'd state" where
  "init dev s =
     (let (revision, s1) = read_u8 dev VCNL4010_PRODUCTID s
      in if revision AND 0xF0 \<noteq> 0x20
         then (Inl (RuntimeError ''Failed to find VCNL4010, check wiring!''), s1)
         else (case led_current_setter dev 20 s1 of
                 (Inl e, s2) \<Rightarrow> (Inl e, s2)
               | (Inr _, s2) \<Rightarrow>
           (case samplerate_setter dev SAMPLERATE_1_95 s2 of
                 (Inl e, s3) \<Rightarrow> (Inl e, s3)
               | (Inr _, s3) \<Rightarrow>
           (case frequency_setter dev FREQUENCY_390K625 s3 of
                 (Inl e, s4) \<Rightarrow> (Inl e, s4)
               | (Inr _, s4) \<Rightarrow> (Inr (), write_u8 dev VCNL4010_INTCONTROL 0x08 s4)))))"

subsection \<open>Measurements\<close>

text \<open>
  The two \<open>while True\<close> loops have no bound: a device that never raises its ready
  bit keeps the driver polling forever.  Not returning is the value \<open>None\<close>.
\<close>

partial_function (option) proximity_wait :: "'d i2c_device \<Rightarrow> 'd state \<Rightarrow> (int \<times> 'd state) option" where
  "proximity_wait dev s =
     (case read_u8 dev VCNL4010_COMMAND s of
        (result, s') \<Rightarrow>
          if result AND VCNL4010_PROXIMITYREADY \<noteq> 0
          then Some (read_u16BE dev VCNL4010_PROXIMITYDATA s')
          else proximity_wait dev s')"

definition proximity :: "'d i2c_device \<Rightarrow> 'd state \<Rightarrow> (int \<times> 'd state) option" where
  "proximity dev s =
     (let (status, s1) = read_u8 dev VCNL4010_INTSTAT s;
          status = status AND NOT 0x80;
          s2 = write_u8 dev VCNL4010_INTSTAT status s1;
          s3 = write_u8 dev VCNL4010_COMMAND VCNL4010_MEASUREPROXIMITY s2
      in proximity_wait dev s3)"

partial_function (option) ambient_wait :: "'d i2c_device \<Rightarrow> 'd state \<Rightarrow> (int \<times> 'd state) option" where
  "ambient_wait dev s =
     (case read_u8 dev VCNL4010_COMMAND s of
        (result, s') \<Rightarrow>
          if result AND VCNL4010_AMBIENTREADY \<noteq> 0
          then Some (read_u16BE dev VCNL4010_AMBIENTDATA s')
          else ambient_wait dev s')"

definition ambient :: "'d i2c_device \<Rightarrow> 'd state \<Rightarrow> (int \<times> 'd state) option" where
  "ambient dev s =
     (let (status, s1) = read_u8 dev VCNL4010_INTSTAT s;
          status = status AND NOT 0x80;
          s2 = write_u8 dev VCNL4010_INTSTAT status s1;
          s3 = write_u8 dev VCNL4010_COMMAND VCNL4010_MEASUREAMBIENT s2
      in ambient_wait dev s3)"

subsection \<open>Floats, and the ambient light in lux\<close>

text \<open>
  \<open>ambient_lux\<close> multiplies the integer \<open>self.ambient\<close> by the float constant 0.25:
  Python converts the integer to a float and multiplies the two floats.  A Python float
  is a binary floating-point number with a significand of \<open>p\<close> bits: 53 in CPython
  (binary64), and 24 or fewer in the single-precision builds of CircuitPython.  The model
  keeps \<open>p\<close> as a parameter.  A finite float is an integer significand and an exponent,
  with the value \<open>significand * 2 ^ exponent\<close>; conversion and multiplication compute the
  exact result and round it to \<open>p\<close> significant bits, to nearest with ties to even.
  The exponent range (overflow, subnormal numbers) is not modelled: every value that
  arises below is zero or has a magnitude between \<open>2 ^ -2\<close> and \<open>2 ^ 16\<close>.
\<close>

datatype pyfloat = PyFloat (significand: int) (exponent: int)

definition float_value :: "pyfloat \<Rightarrow> rat" where
  "float_value x =
     (if 0 \<le> exponent x then of_int (significand x * 2 ^ nat (exponent x))
      else of_int (significand x) / of_int (2 ^ nat (- exponent x)))"

definition round_half_even :: "int \<Rightarrow> nat \<Rightarrow> int" where
  "round_half_even m k =
     (let q = m div 2 ^ k; r = m mod 2 ^ k; h = 2 ^ (k - 1)
      in if r < h then q else if h < r then q + 1 else if even q then q else q + 1)"

definition round_float :: "nat \<Rightarrow> pyfloat \<Rightarrow> pyfloat" where
  "round_float p x =
     (let k = bitlen \<bar>significand x\<bar> - int p
      in if k \<le> 0 then x
         else PyFloat (round_half_even (significand x) (nat k)) (exponent x + k))"

definition float_of_int :: "nat \<Rightarrow> int \<Rightarrow> pyfloat" where
  "float_of_int p n = round_float p (PyFloat n 0)"

definition float_mul :: "nat \<Rightarrow> pyfloat \<Rightarrow> pyfloat \<Rightarrow> pyfloat" where
  "float_mul p x y =
     round_float p (PyFloat (significand x * significand y) (exponent x + exponent y))"

text \<open>The literal \<open>0.25\<close> is \<open>2 ^ -2\<close>, a float of every precision.\<close>

definition VCNL4010_AMBIENT_LUX_SCALE :: pyfloat where
  "VCNL4010_AMBIENT_LUX_SCALE = PyFloat 1 (- 2)"

definition ambient_lux :: "nat \<Rightarrow> 'd i2c_device \<Rightarrow> 'd state \<Rightarrow> (pyfloat \<times> 'd state) option" where
  "ambient_lux p dev s =
     (case ambient dev s of
        None \<Rightarrow> None
      | Some (raw, s') \<Rightarrow>
          Some (float_mul p (float_of_int p raw) VCNL4010_AMBIENT_LUX_SCALE, s'))"

section \<open>Vocabulary for the device's side of the bus\<close>

text \<open>
  What a device in state \<open>d\<close> answers when the register address \<open>a\<close> is written and
  two bytes are read back (the driver's only kind of read), and the state the read leaves
  it in.
\<close>

definition reply :: "'d i2c_device \<Rightarrow> byte \<Rightarrow> 'd \<Rightarrow> nat \<Rightarrow> byte" where
  "reply dev a d = fst (on_write_then_read dev [a] 2 d)"

definition after_read :: "'d i2c_device \<Rightarrow> byte \<Rightarrow> 'd \<Rightarrow> 'd" where
  "after_read dev a d = snd (on_write_then_read dev [a] 2 d)"

subsection \<open>A register-file device for concrete runs\<close>

text \<open>
  A test double: a file of byte registers that echoes every written byte back on read,
  with consecutive registers read at consecutive positions.  A write to the command
  register 0x80 starts a measurement that takes \<open>delay\<close> polls: the command register
  shows the ready bits 0x20 and 0x40 only once it has been read \<open>delay\<close> times.
\<close>

record mock_sensor =
  registers :: "byte \<Rightarrow> byte"
  busy :: nat

definition mock_device :: "nat \<Rightarrow> mock_sensor i2c_device" where
  "mock_device delay =
     \<lparr>on_write = (\<lambda>out d.
        case out of
          [a, v] \<Rightarrow> d\<lparr>registers := (registers d)(a := v),
                        busy := (if a = 0x80 then delay else busy d)\<rparr>
        | _ \<Rightarrow> d),
      on_write_then_read = (\<lambda>out n d.
        case out of
          [a] \<Rightarrow>
            if a = 0x80
            then (\<lambda>i. if i = 0 \<and> busy d = 0 then registers d a OR 0x60
                       else registers d (a + of_nat i),
                  d\<lparr>busy := busy d - 1\<rparr>)
            else (\<lambda>i. registers d (a + of_nat i), d)
        | _ \<Rightarrow> (\<lambda>i. 0xFF, d))\<rparr>"

definition mock_state :: "(byte \<Rightarrow> byte) \<Rightarrow> mock_sensor state" where
  "mock_state regs =
     \<lparr>BUFFER = [0, 0, 0], device = \<lparr>registers = regs, busy = 0\<rparr>, history = []\<rparr>"

subsection \<open>Vocabulary for a measurement\<close>

text \<open>
  \<open>triggered dev trigger d\<close> is the state of a device, initially in state \<open>d\<close>, when
  polling starts: its interrupt-status register 0x8E has been read, the byte read has been
  written back with its top bit cleared, and the trigger byte has been written to the
  command register 0x80.  \<open>polled dev k d\<close> is the device after \<open>k\<close> further reads of the
  command register.  \<open>ready_after dev ready N d\<close> says that the ready bit becomes set
  only after \<open>N\<close> polls: each of the first \<open>N\<close> reads of the command register shows the
  bit \<open>ready\<close> clear, and the next read shows it set.
\<close>

definition triggered :: "'d i2c_device \<Rightarrow> byte \<Rightarrow> 'd \<Rightarrow> 'd" where
  "triggered dev trigger d =
     on_write dev [0x80, trigger]
       (on_write dev [0x8E, reply dev 0x8E d 0 AND 0x7F] (after_read dev 0x8E d))"

definition polled :: "'d i2c_device \<Rightarrow> nat \<Rightarrow> 'd \<Rightarrow> 'd" where
  "polled dev k d = (after_read dev 0x80 ^^ k) d"

definition ready_after :: "'d i2c_device \<Rightarrow> byte \<Rightarrow> nat \<Rightarrow> 'd \<Rightarrow> bool" where
  "ready_after dev ready N d \<longleftrightarrow>
     (\<forall>k<N. reply dev 0x80 (polled dev k d) 0 AND ready = 0) \<and>
     reply dev 0x80 (polled dev N d) 0 AND ready \<noteq> 0"

text \<open>
  The transactions of a whole measurement against such a device: clear-interrupt (a read
  and a write of 0x8E), trigger (a write of 0x80), \<open>N + 1\<close> reads of the command
  register, and one read of the data register.
\<close>

definition poll_transactions :: "'d i2c_device \<Rightarrow> nat \<Rightarrow> 'd \<Rightarrow> transaction list" where
  "poll_transactions dev n d =
     map (\<lambda>k. WriteThenRead [0x80]
            [reply dev 0x80 (polled dev k d) 0, reply dev 0x80 (polled dev k d) 1]) [0..<n]"

definition measurement_transactions ::
  "'d i2c_device \<Rightarrow> byte \<Rightarrow> byte \<Rightarrow> nat \<Rightarrow> 'd \<Rightarrow> transaction list" where
  "measurement_transactions dev trigger data N d =
     [WriteThenRead [0x8E] [reply dev 0x8E d 0, reply dev 0x8E d 1],
      Write [0x8E, reply dev 0x8E d 0 AND 0x7F],
      Write [0x80, trigger]] @
     poll_transactions dev (Suc N) (triggered dev trigger d) @
     [WriteThenRead [data]
        [reply dev data (polled dev (Suc N) (triggered dev trigger d)) 0,
         reply dev data (polled dev (Suc N) (triggered dev trigger d)) 1]]"

text \<open>
  The register contents of the concrete runs: interrupt status 0x83, and the bytes
  0x01, 0x02 in both data registers.
\<close>

definition mock_registers :: "byte \<Rightarrow> byte" where
  "mock_registers = (\<lambda>a. 0)(0x8E := 0x83, 0x85 := 0x01, 0x86 := 0x02, 0x87 := 0x01, 0x88 := 0x02)"

section \<open>Properties\<close>

lemmas register_defs =
  VCNL4010_COMMAND_def VCNL4010_PRODUCTID_def VCNL4010_PROXRATE_def VCNL4010_IRLED_def
  VCNL4010_AMBIENTDATA_def VCNL4010_PROXIMITYDATA_def VCNL4010_INTCONTROL_def
  VCNL4010_INTSTAT_def VCNL4010_MODTIMING_def VCNL4010_MEASUREAMBIENT_def
  VCNL4010_MEASUREPROXIMITY_def VCNL4010_AMBIENTREADY_def VCNL4010_PROXIMITYREADY_def
  SAMPLERATE_1_95_def FREQUENCY_390K625_def

subsection \<open>Bytes and Python integers\<close>

lemma mask_byte: "word_of_int (v AND 0xFF) = (word_of_int v :: byte)"
  by (simp add: word_of_int_eq_iff take_bit_eq_mask mask_eq_exp_minus_1)

lemma woi_and: "(word_of_int (k AND l) :: byte) = word_of_int k AND word_of_int l"
  by (simp add: of_int_and_eq)

lemma woi_or: "(word_of_int (k OR l) :: byte) = word_of_int k OR word_of_int l"
  by (simp add: of_int_or_eq)

lemma woi_not: "(word_of_int (NOT k) :: byte) = NOT (word_of_int k)"
  by (simp add: of_int_not_eq)

lemma woi_push: "(word_of_int (push_bit n k) :: byte) = push_bit n (word_of_int k)"
  by (simp add: of_int_push_bit)

lemma byte_eqI:
  fixes a b :: byte
  assumes "bit a 0 = bit b 0" "bit a 1 = bit b 1" "bit a 2 = bit b 2" "bit a 3 = bit b 3"
    "bit a 4 = bit b 4" "bit a 5 = bit b 5" "bit a 6 = bit b 6" "bit a 7 = bit b 7"
  shows "a = b"
proof (rule bit_word_eqI)
  fix n assume "n < LENGTH(8)"
  then have "n \<in> {0, 1, 2, 3, 4, 5, 6, 7}"
    by auto
  with assms show "bit a n = bit b n"
    by auto
qed

lemma byte_and_255: "(x :: byte) AND 255 = x"
  by (rule byte_eqI) (simp_all add: bit_simps)

lemma uint_byte_of_int: "0 \<le> k \<Longrightarrow> k < 256 \<Longrightarrow> uint (word_of_int k :: byte) = k"
  by (simp add: uint_word_of_int_eq take_bit_eq_mod)

lemma uint_byte_less: "uint (b :: byte) < 256"
  using uint_lt2p [of b] by simp

lemma and_63_small: "0 \<le> v \<Longrightarrow> v < 64 \<Longrightarrow> v AND 0x3F = (v :: int)"
proof -
  assume a: "0 \<le> v" "v < 64"
  have "v AND 0x3F = v AND mask 6" by (simp add: mask_eq_exp_minus_1)
  also have "\<dots> = v" using a by (simp flip: take_bit_eq_mask add: take_bit_eq_mod)
  finally show ?thesis .
qed

lemma ready_bit: "(uint (b :: byte) AND uint (m :: byte) = 0) = (b AND m = 0)"
proof -
  have "uint (b AND m) = uint b AND uint m" by (simp add: uint_and)
  then show ?thesis by (metis uint_0_iff)
qed

lemma proximity_ready_bit: "(uint (b :: byte) AND 0x20 = 0) = (b AND 0x20 = 0)"
  using ready_bit [of b "0x20"] by simp

lemma ambient_ready_bit: "(uint (b :: byte) AND 0x40 = 0) = (b AND 0x40 = 0)"
  using ready_bit [of b "0x40"] by simp

lemma clear_top: "(word_of_int ((uint st AND NOT 0x80) AND 0xFF) :: byte) = st AND 0x7F"
proof -
  have "(word_of_int ((uint st AND NOT 0x80) AND 0xFF) :: byte) = (st AND NOT 0x80) AND 0xFF"
    by (simp add: woi_and woi_not)
  also have "\<dots> = st AND 0x7F"
    by (rule byte_eqI) (simp_all add: bit_simps)
  finally show ?thesis .
qed

lemma cleared_value: "uint ((st :: byte) AND 0x7F) = uint st AND NOT 0x80"
proof -
  let ?k = "uint st AND NOT 0x80"
  have "?k \<le> uint st"
    by (rule AND_upper1) simp
  then have "?k < 256"
    using uint_byte_less [of st] by simp
  moreover have "0 \<le> ?k"
    by simp
  ultimately have "uint (word_of_int ?k :: byte) = ?k"
    by (rule uint_byte_of_int [rotated])
  moreover have "(word_of_int ?k :: byte) = st AND 0x7F"
    using clear_top [of st] by (simp only: mask_byte)
  ultimately show ?thesis
    by simp
qed

lemma cleared_bits:
  fixes st :: byte
  shows "\<not> bit (st AND 0x7F) 7" and "\<forall>n<7. bit (st AND 0x7F) n = bit st n"
proof -
  show "\<not> bit (st AND 0x7F) 7"
    by (simp add: bit_simps)
  show "\<forall>n<7. bit (st AND 0x7F) n = bit st n"
  proof (intro allI impI)
    fix n :: nat
    assume "n < 7"
    then have "n \<in> {0, 1, 2, 3, 4, 5, 6}"
      by auto
    then show "bit (st AND 0x7F) n = bit st n"
      by (auto simp add: bit_simps)
  qed
qed

lemma byte_of_uint_and: "(word_of_int (uint (t :: byte) AND NOT 0b00011000) :: byte) = t AND NOT 0x18"
  by (simp add: woi_and woi_not)

lemma freq_bits:
  fixes t :: byte
  assumes "0 \<le> v" "v \<le> 3"
  defines "w \<equiv> (t AND NOT 0x18) OR push_bit 3 (word_of_int v)"
  shows "w AND NOT 0x18 = t AND NOT 0x18" "drop_bit 3 w AND 3 = word_of_int v"
proof -
  from assms(1,2) have "v = 0 \<or> v = 1 \<or> v = 2 \<or> v = 3" by arith
  then show "w AND NOT 0x18 = t AND NOT 0x18"
    unfolding w_def
    by (elim disjE; simp; intro byte_eqI; simp add: bit_simps)
  from \<open>v = 0 \<or> v = 1 \<or> v = 2 \<or> v = 3\<close> show "drop_bit 3 w AND 3 = word_of_int v"
    unfolding w_def
    by (elim disjE; simp; intro byte_eqI; simp add: bit_simps)
qed

lemma freq_int:
  fixes t :: byte
  assumes "0 \<le> v" "v \<le> 3"
  shows "uint ((t AND NOT 0x18) OR push_bit 3 (word_of_int v)) = (uint t AND NOT 0b00011000) OR push_bit 3 v"
proof -
  let ?k = "(uint t AND NOT 0b00011000) OR push_bit 3 v"
  have p: "0 \<le> push_bit 3 v" "push_bit 3 v < 2 ^ 8"
    using assms by (simp_all add: push_bit_eq_mult)
  have a: "0 \<le> uint t AND NOT 0b00011000" by simp
  have "uint t AND NOT 0b00011000 \<le> uint t"
    by (rule AND_upper1) simp
  then have b: "uint t AND NOT 0b00011000 < 2 ^ 8"
    using uint_byte_less [of t] by simp
  have "?k < 2 ^ 8" using a b p by (intro OR_upper) 
  moreover have "0 \<le> ?k" using a p by simp
  ultimately have "uint (word_of_int ?k :: byte) = ?k"
    by (simp add: uint_byte_of_int)
  moreover have "(word_of_int ?k :: byte) = (t AND NOT 0x18) OR push_bit 3 (word_of_int v)"
    by (simp add: woi_and woi_or woi_not woi_push)
  ultimately show ?thesis by simp
qed

lemma u16_range:
  fixes hi lo :: byte
  shows "0 \<le> push_bit 8 (uint hi) OR uint lo" and "push_bit 8 (uint hi) OR uint lo \<le> 65535"
proof -
  have h: "0 \<le> push_bit 8 (uint hi)" "push_bit 8 (uint hi) < 2 ^ 16"
    using uint_byte_less [of hi] by (simp_all add: push_bit_eq_mult)
  have l: "uint lo < 2 ^ 16"
    using uint_byte_less [of lo] by simp
  show "0 \<le> push_bit 8 (uint hi) OR uint lo"
    by simp
  have "push_bit 8 (uint hi) OR uint lo < 2 ^ 16"
    using h l by (intro OR_upper)
  then show "push_bit 8 (uint hi) OR uint lo \<le> 65535"
    by simp
qed

subsection \<open>The register primitives as bus transactions\<close>

text \<open>
  The scratch buffer is a \<open>bytearray(3)\<close>: its length is 3 in every state the driver
  can be in, and the primitives keep it so.  Each primitive is one bus transaction.
\<close>

lemma length_three: "length xs = 3 \<Longrightarrow> \<exists>a b c. xs = [a, b, c]"
  by (cases xs; simp; cases "tl xs"; simp; cases "tl (tl xs)"; simp)

lemma read_u8_eq:
  assumes "length (BUFFER s) = 3"
  shows "read_u8 dev a s =
    (uint (reply dev (word_of_int (a AND 0xFF)) (device s) 0),
     s\<lparr>BUFFER := [word_of_int (a AND 0xFF),
                   reply dev (word_of_int (a AND 0xFF)) (device s) 0,
                   reply dev (word_of_int (a AND 0xFF)) (device s) 1],
       device := after_read dev (word_of_int (a AND 0xFF)) (device s),
       history := history s @ [WriteThenRead [word_of_int (a AND 0xFF)]
          [reply dev (word_of_int (a AND 0xFF)) (device s) 0,
           reply dev (word_of_int (a AND 0xFF)) (device s) 1]]\<rparr>)"
proof -
  from assms obtain x y z where "BUFFER s = [x, y, z]"
    using length_three by blast
  then show ?thesis
    by (simp add: read_u8_def i2c_write_then_readinto_def reply_def after_read_def Let_def
        upt_rec numeral_2_eq_2 split: prod.splits)
qed

lemma read_u16BE_eq:
  assumes "length (BUFFER s) = 3"
  shows "read_u16BE dev a s =
    (push_bit 8 (uint (reply dev (word_of_int (a AND 0xFF)) (device s) 0))
       OR uint (reply dev (word_of_int (a AND 0xFF)) (device s) 1),
     s\<lparr>BUFFER := [word_of_int (a AND 0xFF),
                   reply dev (word_of_int (a AND 0xFF)) (device s) 0,
                   reply dev (word_of_int (a AND 0xFF)) (device s) 1],
       device := after_read dev (word_of_int (a AND 0xFF)) (device s),
       history := history s @ [WriteThenRead [word_of_int (a AND 0xFF)]
          [reply dev (word_of_int (a AND 0xFF)) (device s) 0,
           reply dev (word_of_int (a AND 0xFF)) (device s) 1]]\<rparr>)"
proof -
  from assms obtain x y z where "BUFFER s = [x, y, z]"
    using length_three by blast
  then show ?thesis
    by (simp add: read_u16BE_def i2c_write_then_readinto_def reply_def after_read_def Let_def
        upt_rec numeral_2_eq_2 split: prod.splits)
qed

lemma write_u8_eq:
  assumes "length (BUFFER s) = 3"
  shows "write_u8 dev a v s =
     s\<lparr>BUFFER := [word_of_int (a AND 0xFF), word_of_int (v AND 0xFF), BUFFER s ! 2],
       device := on_write dev [word_of_int (a AND 0xFF), word_of_int (v AND 0xFF)] (device s),
       history := history s @ [Write [word_of_int (a AND 0xFF), word_of_int (v AND 0xFF)]]\<rparr>"
proof -
  from assms obtain x y z where "BUFFER s = [x, y, z]"
    using length_three by blast
  then show ?thesis
    by (simp add: write_u8_def i2c_write_def Let_def)
qed

lemma poll_step:
  assumes "length (BUFFER s) = 3"
  shows "read_u8 dev VCNL4010_COMMAND s =
    (uint (reply dev 0x80 (device s) 0),
     s\<lparr>BUFFER := [0x80, reply dev 0x80 (device s) 0, reply dev 0x80 (device s) 1],
       device := after_read dev 0x80 (device s),
       history := history s @
         [WriteThenRead [0x80] [reply dev 0x80 (device s) 0, reply dev 0x80 (device s) 1]]\<rparr>)"
  using assms by (simp add: read_u8_eq VCNL4010_COMMAND_def)

lemma led_current_eq:
  assumes "length (BUFFER s) = 3"
  shows "fst (led_current dev s) = uint (reply dev 0x83 (device s) 0) AND 0x3F"
  using assms by (simp add: led_current_def read_u8_eq VCNL4010_IRLED_def)

lemma led_current_setter_ok:
  assumes "length (BUFFER s) = 3" and "0 \<le> v" and "v \<le> 20"
  shows "led_current_setter dev v s =
    (Inr (), s\<lparr>BUFFER := [0x83, word_of_int v, BUFFER s ! 2],
               device := on_write dev [0x83, word_of_int v] (device s),
               history := history s @ [Write [0x83, word_of_int v]]\<rparr>)"
  using assms by (simp add: led_current_setter_def write_u8_eq VCNL4010_IRLED_def mask_byte)

lemma set_then_get:
  assumes "length (BUFFER s) = 3" and "0 \<le> v" and "v \<le> 20"
    and "\<forall>d b. reply dev 0x83 (on_write dev [0x83, b] d) 0 = b"
  shows "fst (led_current dev (snd (led_current_setter dev v s))) = v"
proof -
  let ?s' = "snd (led_current_setter dev v s)"
  have len: "length (BUFFER ?s') = 3" and d: "device ?s' = on_write dev [0x83, word_of_int v] (device s)"
    using assms(1-3) by (simp_all add: led_current_setter_ok)
  have "fst (led_current dev ?s') = uint (reply dev 0x83 (device ?s') 0) AND 0x3F"
    using len by (rule led_current_eq)
  also have "reply dev 0x83 (device ?s') 0 = word_of_int v"
    using assms(4) d by simp
  also have "uint (word_of_int v :: byte) = v"
    using assms(2,3) by (simp add: uint_byte_of_int)
  also have "v AND 0x3F = v"
    using assms(2,3) by (simp add: and_63_small)
  finally show ?thesis .
qed

lemma samplerate_eq:
  assumes "length (BUFFER s) = 3"
  shows "fst (samplerate dev s) = uint (reply dev 0x82 (device s) 0)"
  using assms by (simp add: samplerate_def read_u8_eq VCNL4010_PROXRATE_def)

lemma frequency_eq:
  assumes "length (BUFFER s) = 3"
  shows "fst (frequency dev s) = drop_bit 3 (uint (reply dev 0x8F (device s) 0)) AND 0x03"
  using assms by (simp add: frequency_def read_u8_eq VCNL4010_MODTIMING_def)

subsection \<open>The polling loops\<close>

text \<open>
  Against a device that becomes ready after \<open>N\<close> polls, a polling loop returns after
  \<open>N + 1\<close> reads of the command register (induction on \<open>N\<close>).  A run that returns has
  only appended to the transaction history, and its result is a 16-bit value (induction
  over the runs that return).
\<close>

lemma polled_Suc: "polled dev (Suc k) d = polled dev k (after_read dev 0x80 d)"
  by (simp add: polled_def funpow_swap1)

lemma polled_0: "polled dev 0 d = d"
  by (simp add: polled_def)

lemma ready_after_0:
  "ready_after dev m 0 d \<longleftrightarrow> reply dev 0x80 d 0 AND m \<noteq> 0"
  by (simp add: ready_after_def polled_0)

lemma ready_after_Suc:
  "ready_after dev m (Suc N) d \<longleftrightarrow>
     reply dev 0x80 d 0 AND m = 0 \<and> ready_after dev m N (after_read dev 0x80 d)"
proof -
  have "(\<forall>k<Suc N. reply dev 0x80 (polled dev k d) 0 AND m = 0) \<longleftrightarrow>
        reply dev 0x80 d 0 AND m = 0 \<and>
        (\<forall>k<N. reply dev 0x80 (polled dev k (after_read dev 0x80 d)) 0 AND m = 0)"
    by (simp add: All_less_Suc2 polled_Suc polled_0)
  then show ?thesis
    by (simp add: ready_after_def polled_Suc)
qed

lemma poll_transactions_0: "poll_transactions dev 0 d = []"
  by (simp add: poll_transactions_def)

lemma poll_transactions_Suc:
  "poll_transactions dev (Suc n) d =
     WriteThenRead [0x80] [reply dev 0x80 d 0, reply dev 0x80 d 1]
       # poll_transactions dev n (after_read dev 0x80 d)"
  by (simp add: poll_transactions_def map_upt_Suc polled_Suc polled_0 del: upt_Suc)

lemma proximity_wait_ready:
  assumes "length (BUFFER s) = 3" and "ready_after dev 0x20 N (device s)"
  shows "proximity_wait dev s =
    Some (push_bit 8 (uint (reply dev 0x87 (polled dev (Suc N) (device s)) 0))
            OR uint (reply dev 0x87 (polled dev (Suc N) (device s)) 1),
          s\<lparr>BUFFER := [0x87, reply dev 0x87 (polled dev (Suc N) (device s)) 0,
                        reply dev 0x87 (polled dev (Suc N) (device s)) 1],
            device := after_read dev 0x87 (polled dev (Suc N) (device s)),
            history := history s @ poll_transactions dev (Suc N) (device s) @
              [WriteThenRead [0x87] [reply dev 0x87 (polled dev (Suc N) (device s)) 0,
                                     reply dev 0x87 (polled dev (Suc N) (device s)) 1]]\<rparr>)"
  using assms
proof (induction N arbitrary: s)
  case 0
  from "0.prems"(2) have r: "uint (reply dev 0x80 (device s) 0) AND 0x20 \<noteq> 0"
    by (simp add: ready_after_0 proximity_ready_bit)
  show ?case
    apply (subst proximity_wait.simps)
    using "0.prems"(1) r
    by (simp add: poll_step read_u16BE_eq VCNL4010_PROXIMITYREADY_def VCNL4010_PROXIMITYDATA_def
        poll_transactions_Suc polled_Suc polled_0 poll_transactions_def)
next
  case (Suc N)
  let ?s' = "snd (read_u8 dev VCNL4010_COMMAND s)"
  from Suc.prems(2) have nr: "reply dev 0x80 (device s) 0 AND 0x20 = 0"
    and ra: "ready_after dev 0x20 N (after_read dev 0x80 (device s))"
    by (simp_all add: ready_after_Suc)
  from nr have r: "uint (reply dev 0x80 (device s) 0) AND 0x20 = 0"
    by (simp add: proximity_ready_bit)
  have len: "length (BUFFER ?s') = 3" and dev': "device ?s' = after_read dev 0x80 (device s)"
    using Suc.prems(1) by (simp_all add: poll_step)
  have step: "proximity_wait dev s = proximity_wait dev ?s'"
    apply (subst proximity_wait.simps)
    using Suc.prems(1) r
    by (simp add: poll_step VCNL4010_PROXIMITYREADY_def)
  from ra dev' have "ready_after dev 0x20 N (device ?s')" by simp
  from Suc.IH [OF len this] step show ?case
    using Suc.prems(1)
    by (simp add: poll_step polled_Suc [of dev "Suc N"] poll_transactions_Suc [of dev "Suc N"])
qed

lemma ambient_wait_ready:
  assumes "length (BUFFER s) = 3" and "ready_after dev 0x40 N (device s)"
  shows "ambient_wait dev s =
    Some (push_bit 8 (uint (reply dev 0x85 (polled dev (Suc N) (device s)) 0))
            OR uint (reply dev 0x85 (polled dev (Suc N) (device s)) 1),
          s\<lparr>BUFFER := [0x85, reply dev 0x85 (polled dev (Suc N) (device s)) 0,
                        reply dev 0x85 (polled dev (Suc N) (device s)) 1],
            device := after_read dev 0x85 (polled dev (Suc N) (device s)),
            history := history s @ poll_transactions dev (Suc N) (device s) @
              [WriteThenRead [0x85] [reply dev 0x85 (polled dev (Suc N) (device s)) 0,
                                     reply dev 0x85 (polled dev (Suc N) (device s)) 1]]\<rparr>)"
  using assms
proof (induction N arbitrary: s)
  case 0
  from "0.prems"(2) have r: "uint (reply dev 0x80 (device s) 0) AND 0x40 \<noteq> 0"
    by (simp add: ready_after_0 ambient_ready_bit)
  show ?case
    apply (subst ambient_wait.simps)
    using "0.prems"(1) r
    by (simp add: poll_step read_u16BE_eq VCNL4010_AMBIENTREADY_def VCNL4010_AMBIENTDATA_def
        poll_transactions_Suc polled_Suc polled_0 poll_transactions_def)
next
  case (Suc N)
  let ?s' = "snd (read_u8 dev VCNL4010_COMMAND s)"
  from Suc.prems(2) have nr: "reply dev 0x80 (device s) 0 AND 0x40 = 0"
    and ra: "ready_after dev 0x40 N (after_read dev 0x80 (device s))"
    by (simp_all add: ready_after_Suc)
  from nr have r: "uint (reply dev 0x80 (device s) 0) AND 0x40 = 0"
    by (simp add: ambient_ready_bit)
  have len: "length (BUFFER ?s') = 3" and dev': "device ?s' = after_read dev 0x80 (device s)"
    using Suc.prems(1) by (simp_all add: poll_step)
  have step: "ambient_wait dev s = ambient_wait dev ?s'"
    apply (subst ambient_wait.simps)
    using Suc.prems(1) r
    by (simp add: poll_step VCNL4010_AMBIENTREADY_def)
  from ra dev' have "ready_after dev 0x40 N (device ?s')" by simp
  from Suc.IH [OF len this] step show ?case
    using Suc.prems(1)
    by (simp add: poll_step polled_Suc [of dev "Suc N"] poll_transactions_Suc [of dev "Suc N"])
qed

lemma start_measurement:
  assumes "length (BUFFER s) = 3"
  shows "write_u8 dev VCNL4010_COMMAND trigger
           (write_u8 dev VCNL4010_INTSTAT (fst (read_u8 dev VCNL4010_INTSTAT s) AND NOT 0x80)
              (snd (read_u8 dev VCNL4010_INTSTAT s))) =
         s\<lparr>BUFFER := [0x80, word_of_int trigger, reply dev 0x8E (device s) 1],
           device := triggered dev (word_of_int trigger) (device s),
           history := history s @
             [WriteThenRead [0x8E] [reply dev 0x8E (device s) 0, reply dev 0x8E (device s) 1],
              Write [0x8E, reply dev 0x8E (device s) 0 AND 0x7F],
              Write [0x80, word_of_int trigger]]\<rparr>"
proof -
  have a: "(word_of_int (uint (reply dev 0x8E (device s) 0) AND NOT 0x80) :: byte)
             = reply dev 0x8E (device s) 0 AND 0x7F"
    using clear_top [of "reply dev 0x8E (device s) 0"] by (simp only: mask_byte)
  show ?thesis
    using assms
    by (simp add: read_u8_eq write_u8_eq VCNL4010_INTSTAT_def VCNL4010_COMMAND_def mask_byte
        triggered_def a [simplified])
qed

lemma proximity_start:
  assumes "length (BUFFER s) = 3"
  shows "proximity dev s = proximity_wait dev
     (s\<lparr>BUFFER := [0x80, 0x08, reply dev 0x8E (device s) 1],
        device := triggered dev 0x08 (device s),
        history := history s @
          [WriteThenRead [0x8E] [reply dev 0x8E (device s) 0, reply dev 0x8E (device s) 1],
           Write [0x8E, reply dev 0x8E (device s) 0 AND 0x7F],
           Write [0x80, 0x08]]\<rparr>)"
  using start_measurement [OF assms, of dev VCNL4010_MEASUREPROXIMITY]
  by (simp add: proximity_def VCNL4010_MEASUREPROXIMITY_def case_prod_beta)

lemma ambient_start:
  assumes "length (BUFFER s) = 3"
  shows "ambient dev s = ambient_wait dev
     (s\<lparr>BUFFER := [0x80, 0x10, reply dev 0x8E (device s) 1],
        device := triggered dev 0x10 (device s),
        history := history s @
          [WriteThenRead [0x8E] [reply dev 0x8E (device s) 0, reply dev 0x8E (device s) 1],
           Write [0x8E, reply dev 0x8E (device s) 0 AND 0x7F],
           Write [0x80, 0x10]]\<rparr>)"
  using start_measurement [OF assms, of dev VCNL4010_MEASUREAMBIENT]
  by (simp add: ambient_def VCNL4010_MEASUREAMBIENT_def case_prod_beta)

lemma proximity_wait_extends:
  assumes "proximity_wait dev s = Some y"
  shows "length (BUFFER s) = 3 \<longrightarrow> (\<exists>rest. history (snd y) = history s @ rest)"
proof (rule proximity_wait.raw_induct
    [where P = "\<lambda>dev s y. length (BUFFER s) = 3 \<longrightarrow> (\<exists>rest. history (snd y) = history s @ rest)",
      OF _ assms])
  fix pw :: "'a i2c_device \<Rightarrow> 'a state \<Rightarrow> (int \<times> 'a state) option"
    and dev :: "'a i2c_device" and s :: "'a state" and y :: "int \<times> 'a state"
  assume IH: "\<And>dev s y. pw dev s = Some y \<Longrightarrow>
      length (BUFFER s) = 3 \<longrightarrow> (\<exists>rest. history (snd y) = history s @ rest)"
  assume eq: "(case read_u8 dev VCNL4010_COMMAND s of
      (result, s') \<Rightarrow>
        if result AND VCNL4010_PROXIMITYREADY \<noteq> 0
        then Some (read_u16BE dev VCNL4010_PROXIMITYDATA s')
        else pw dev s') = Some y"
  show "length (BUFFER s) = 3 \<longrightarrow> (\<exists>rest. history (snd y) = history s @ rest)"
  proof
    assume len: "length (BUFFER s) = 3"
    let ?r = "fst (read_u8 dev VCNL4010_COMMAND s)" and ?s' = "snd (read_u8 dev VCNL4010_COMMAND s)"
    have len': "length (BUFFER ?s') = 3"
      and h: "history ?s' = history s @
        [WriteThenRead [0x80] [reply dev 0x80 (device s) 0, reply dev 0x80 (device s) 1]]"
      using len by (simp_all add: poll_step)
    show "\<exists>rest. history (snd y) = history s @ rest"
    proof (cases "?r AND VCNL4010_PROXIMITYREADY \<noteq> 0")
      case True
      with eq have "y = read_u16BE dev VCNL4010_PROXIMITYDATA ?s'"
        by (simp add: case_prod_beta)
      then show ?thesis
        using len' h by (simp add: read_u16BE_eq)
    next
      case False
      with eq have "pw dev ?s' = Some y"
        by (simp add: case_prod_beta)
      from IH [OF this] len' obtain rest where "history (snd y) = history ?s' @ rest"
        by blast
      then show ?thesis
        using h by simp
    qed
  qed
qed

lemma ambient_wait_extends:
  assumes "ambient_wait dev s = Some y"
  shows "length (BUFFER s) = 3 \<longrightarrow> (\<exists>rest. history (snd y) = history s @ rest)"
proof (rule ambient_wait.raw_induct
    [where P = "\<lambda>dev s y. length (BUFFER s) = 3 \<longrightarrow> (\<exists>rest. history (snd y) = history s @ rest)",
      OF _ assms])
  fix aw :: "'a i2c_device \<Rightarrow> 'a state \<Rightarrow> (int \<times> 'a state) option"
    and dev :: "'a i2c_device" and s :: "'a state" and y :: "int \<times> 'a state"
  assume IH: "\<And>dev s y. aw dev s = Some y \<Longrightarrow>
      length (BUFFER s) = 3 \<longrightarrow> (\<exists>rest. history (snd y) = history s @ rest)"
  assume eq: "(case read_u8 dev VCNL4010_COMMAND s of
      (result, s') \<Rightarrow>
        if result AND VCNL4010_AMBIENTREADY \<noteq> 0
        then Some (read_u16BE dev VCNL4010_AMBIENTDATA s')
        else aw dev s') = Some y"
  show "length (BUFFER s) = 3 \<longrightarrow> (\<exists>rest. history (snd y) = history s @ rest)"
  proof
    assume len: "length (BUFFER s) = 3"
    let ?r = "fst (read_u8 dev VCNL4010_COMMAND s)" and ?s' = "snd (read_u8 dev VCNL4010_COMMAND s)"
    have len': "length (BUFFER ?s') = 3"
      and h: "history ?s' = history s @
        [WriteThenRead [0x80] [reply dev 0x80 (device s) 0, reply dev 0x80 (device s) 1]]"
      using len by (simp_all add: poll_step)
    show "\<exists>rest. history (snd y) = history s @ rest"
    proof (cases "?r AND VCNL4010_AMBIENTREADY \<noteq> 0")
      case True
      with eq have "y = read_u16BE dev VCNL4010_AMBIENTDATA ?s'"
        by (simp add: case_prod_beta)
      then show ?thesis
        using len' h by (simp add: read_u16BE_eq)
    next
      case False
      with eq have "aw dev ?s' = Some y"
        by (simp add: case_prod_beta)
      from IH [OF this] len' obtain rest where "history (snd y) = history ?s' @ rest"
        by blast
      then show ?thesis
        using h by simp
    qed
  qed
qed

lemma ambient_wait_range:
  assumes "ambient_wait dev s = Some y"
  shows "length (BUFFER s) = 3 \<longrightarrow> 0 \<le> fst y \<and> fst y \<le> 65535"
proof (rule ambient_wait.raw_induct
    [where P = "\<lambda>dev s y. length (BUFFER s) = 3 \<longrightarrow> 0 \<le> fst y \<and> fst y \<le> 65535",
      OF _ assms])
  fix aw :: "'a i2c_device \<Rightarrow> 'a state \<Rightarrow> (int \<times> 'a state) option"
    and dev :: "'a i2c_device" and s :: "'a state" and y :: "int \<times> 'a state"
  assume IH: "\<And>dev s y. aw dev s = Some y \<Longrightarrow>
      length (BUFFER s) = 3 \<longrightarrow> 0 \<le> fst y \<and> fst y \<le> 65535"
  assume eq: "(case read_u8 dev VCNL4010_COMMAND s of
      (result, s') \<Rightarrow>
        if result AND VCNL4010_AMBIENTREADY \<noteq> 0
        then Some (read_u16BE dev VCNL4010_AMBIENTDATA s')
        else aw dev s') = Some y"
  show "length (BUFFER s) = 3 \<longrightarrow> 0 \<le> fst y \<and> fst y \<le> 65535"
  proof
    assume len: "length (BUFFER s) = 3"
    let ?r = "fst (read_u8 dev VCNL4010_COMMAND s)" and ?s' = "snd (read_u8 dev VCNL4010_COMMAND s)"
    have len': "length (BUFFER ?s') = 3"
      using len by (simp add: poll_step)
    show "0 \<le> fst y \<and> fst y \<le> 65535"
    proof (cases "?r AND VCNL4010_AMBIENTREADY \<noteq> 0")
      case True
      with eq have "y = read_u16BE dev VCNL4010_AMBIENTDATA ?s'"
        by (simp add: case_prod_beta)
      then show ?thesis
        using len' u16_range by (simp add: read_u16BE_eq)
    next
      case False
      with eq have "aw dev ?s' = Some y"
        by (simp add: case_prod_beta)
      from IH [OF this] len' show ?thesis
        by blast
    qed
  qed
qed

subsection \<open>The register-file device, evaluated\<close>

lemma mock_reply: "a \<noteq> 0x80 \<Longrightarrow> reply (mock_device n) a d i = registers d (a + of_nat i)"
  by (simp add: mock_device_def reply_def)

lemma mock_after_read: "a \<noteq> 0x80 \<Longrightarrow> after_read (mock_device n) a d = d"
  by (simp add: mock_device_def after_read_def)

lemma mock_on_write:
  "on_write (mock_device n) [a, v] d =
     d\<lparr>registers := (registers d)(a := v), busy := (if a = 0x80 then n else busy d)\<rparr>"
  by (simp add: mock_device_def)

lemma mock_state_sel:
  "BUFFER (mock_state regs) = [0, 0, 0]"
  "device (mock_state regs) = \<lparr>registers = regs, busy = 0\<rparr>"
  "history (mock_state regs) = []"
  by (simp_all add: mock_state_def)

lemmas mock_simps = mock_reply mock_after_read mock_on_write mock_state_sel

lemma mock_echo: "reply (mock_device n) 0x83 (on_write (mock_device n) [0x83, b] d) 0 = b"
  by (simp add: mock_device_def reply_def)

lemma mock_proximity:
  "\<exists>s'. proximity (mock_device 2) (mock_state regs) =
           Some (push_bit 8 (uint (regs 0x87)) OR uint (regs 0x88), s')"
proof -
  let ?dev = "mock_device 2" and ?s = "mock_state regs"
  let ?s3 = "?s\<lparr>BUFFER := [0x80, 0x08, reply ?dev 0x8E (device ?s) 1],
        device := triggered ?dev 0x08 (device ?s),
        history := history ?s @
          [WriteThenRead [0x8E] [reply ?dev 0x8E (device ?s) 0, reply ?dev 0x8E (device ?s) 1],
           Write [0x8E, reply ?dev 0x8E (device ?s) 0 AND 0x7F],
           Write [0x80, 0x08]]\<rparr>"
  have len: "length (BUFFER ?s) = 3" "length (BUFFER ?s3) = 3"
    by (simp_all add: mock_state_def)
  have r: "ready_after ?dev 0x20 (Suc (Suc 0)) (device ?s3)"
    by (simp add: ready_after_Suc ready_after_0 triggered_def mock_state_def
        mock_device_def reply_def after_read_def)
  show ?thesis
    unfolding proximity_start [OF len(1)] proximity_wait_ready [OF len(2) r]
    by (simp add: polled_Suc polled_0 triggered_def mock_state_def
        mock_device_def reply_def after_read_def)
qed

lemma mock_ambient:
  "\<exists>s'. ambient (mock_device 2) (mock_state regs) =
           Some (push_bit 8 (uint (regs 0x85)) OR uint (regs 0x86), s')"
proof -
  let ?dev = "mock_device 2" and ?s = "mock_state regs"
  let ?s3 = "?s\<lparr>BUFFER := [0x80, 0x10, reply ?dev 0x8E (device ?s) 1],
        device := triggered ?dev 0x10 (device ?s),
        history := history ?s @
          [WriteThenRead [0x8E] [reply ?dev 0x8E (device ?s) 0, reply ?dev 0x8E (device ?s) 1],
           Write [0x8E, reply ?dev 0x8E (device ?s) 0 AND 0x7F],
           Write [0x80, 0x10]]\<rparr>"
  have len: "length (BUFFER ?s) = 3" "length (BUFFER ?s3) = 3"
    by (simp_all add: mock_state_def)
  have r: "ready_after ?dev 0x40 (Suc (Suc 0)) (device ?s3)"
    by (simp add: ready_after_Suc ready_after_0 triggered_def mock_state_def
        mock_device_def reply_def after_read_def)
  show ?thesis
    unfolding ambient_start [OF len(1)] ambient_wait_ready [OF len(2) r]
    by (simp add: polled_Suc polled_0 triggered_def mock_state_def
        mock_device_def reply_def after_read_def)
qed

subsection \<open>Floats\<close>

lemma round_float_exact:
  assumes "\<bar>significand x\<bar> < 2 ^ p"
  shows "round_float p x = x"
proof -
  have "bitlen \<bar>significand x\<bar> \<le> int p"
    using assms by (simp add: bitlen_le_iff_power)
  then show ?thesis
    by (simp add: round_float_def)
qed

lemma lux_exact:
  assumes "0 \<le> raw" and "raw \<le> 65535" and "16 \<le> p"
  shows "float_mul p (float_of_int p raw) VCNL4010_AMBIENT_LUX_SCALE = PyFloat raw (- 2)"
    and "float_value (float_mul p (float_of_int p raw) VCNL4010_AMBIENT_LUX_SCALE)
           = of_int raw * 0.25"
proof -
  have "(2 :: int) ^ 16 \<le> 2 ^ p"
    using assms(3) by (intro power_increasing) simp_all
  with assms(1,2) have small: "\<bar>raw\<bar> < 2 ^ p"
    by simp
  then have a: "float_of_int p raw = PyFloat raw 0"
    by (simp add: float_of_int_def round_float_exact)
  show b: "float_mul p (float_of_int p raw) VCNL4010_AMBIENT_LUX_SCALE = PyFloat raw (- 2)"
    using small by (simp add: a float_mul_def VCNL4010_AMBIENT_LUX_SCALE_def round_float_exact)
  show "float_value (float_mul p (float_of_int p raw) VCNL4010_AMBIENT_LUX_SCALE)
           = of_int raw * 0.25"
    by (simp add: b float_value_def)
qed

subsection \<open>C1: a measurement polls until the ready bit appears\<close>

text \<open>
  C1.  For every device whose command register shows the ready bit (0x20 for proximity,
  0x40 for ambient) only after \<open>N\<close> polls, reading \<open>proximity\<close> (resp. \<open>ambient\<close>) returns,
  and the history of the returned state is the old history followed by exactly: the read
  of 0x8E and the write-back with the top bit cleared, the write of the trigger byte 0x08
  (resp. 0x10) to 0x80, \<open>N + 1\<close> reads of 0x80 (the last one being the first that shows
  the ready bit), and one read of the data register 0x87 (resp. 0x85).  The value
  returned is \<open>(high << 8) | low\<close> for the two bytes of that last read.  In the witness
  the device needs two polls and holds the bytes 0x01, 0x02: the result is 0x0102.
\<close>

theorem measurement_polls_until_ready:
  assumes "length (BUFFER s) = 3"
  shows
    "(ready_after dev 0x20 N (triggered dev 0x08 (device s)) \<longrightarrow>
       (\<exists>s'. proximity dev s =
               Some (push_bit 8 (uint (reply dev 0x87 (polled dev (Suc N) (triggered dev 0x08 (device s))) 0))
                       OR uint (reply dev 0x87 (polled dev (Suc N) (triggered dev 0x08 (device s))) 1), s') \<and>
             history s' = history s @ measurement_transactions dev 0x08 0x87 N (device s))) \<and>
     (ready_after dev 0x40 N (triggered dev 0x10 (device s)) \<longrightarrow>
       (\<exists>s'. ambient dev s =
               Some (push_bit 8 (uint (reply dev 0x85 (polled dev (Suc N) (triggered dev 0x10 (device s))) 0))
                       OR uint (reply dev 0x85 (polled dev (Suc N) (triggered dev 0x10 (device s))) 1), s') \<and>
             history s' = history s @ measurement_transactions dev 0x10 0x85 N (device s)))"
proof (intro conjI impI)
  assume r: "ready_after dev 0x20 N (triggered dev 0x08 (device s))"
  show "\<exists>s'. proximity dev s =
               Some (push_bit 8 (uint (reply dev 0x87 (polled dev (Suc N) (triggered dev 0x08 (device s))) 0))
                       OR uint (reply dev 0x87 (polled dev (Suc N) (triggered dev 0x08 (device s))) 1), s') \<and>
             history s' = history s @ measurement_transactions dev 0x08 0x87 N (device s)"
    using r assms
    by (simp add: proximity_start proximity_wait_ready measurement_transactions_def)
next
  assume r: "ready_after dev 0x40 N (triggered dev 0x10 (device s))"
  show "\<exists>s'. ambient dev s =
               Some (push_bit 8 (uint (reply dev 0x85 (polled dev (Suc N) (triggered dev 0x10 (device s))) 0))
                       OR uint (reply dev 0x85 (polled dev (Suc N) (triggered dev 0x10 (device s))) 1), s') \<and>
             history s' = history s @ measurement_transactions dev 0x10 0x85 N (device s)"
    using r assms
    by (simp add: ambient_start ambient_wait_ready measurement_transactions_def)
qed

theorem measurement_polls_until_ready_witness:
  "length (BUFFER (mock_state mock_registers)) = 3 \<and>
   ready_after (mock_device 2) 0x20 2 (triggered (mock_device 2) 0x08 (device (mock_state mock_registers))) \<and>
   (\<exists>s'. proximity (mock_device 2) (mock_state mock_registers) = Some (0x0102, s') \<and>
         history s' =
           [WriteThenRead [0x8E] [0x83, 0], Write [0x8E, 0x03], Write [0x80, 0x08],
            WriteThenRead [0x80] [0x08, 0], WriteThenRead [0x80] [0x08, 0],
            WriteThenRead [0x80] [0x68, 0], WriteThenRead [0x87] [0x01, 0x02]]) \<and>
   ready_after (mock_device 2) 0x40 2 (triggered (mock_device 2) 0x10 (device (mock_state mock_registers))) \<and>
   (\<exists>s'. ambient (mock_device 2) (mock_state mock_registers) = Some (0x0102, s') \<and>
         history s' =
           [WriteThenRead [0x8E] [0x83, 0], Write [0x8E, 0x03], Write [0x80, 0x10],
            WriteThenRead [0x80] [0x10, 0], WriteThenRead [0x80] [0x10, 0],
            WriteThenRead [0x80] [0x70, 0], WriteThenRead [0x85] [0x01, 0x02]])"
proof -
  let ?dev = "mock_device 2" and ?s = "mock_state mock_registers"
  have two: "Suc (Suc 0) = 2" by simp
  have len: "length (BUFFER ?s) = 3"
    by (simp add: mock_state_def)
  have rp: "ready_after ?dev 0x20 (Suc (Suc 0)) (triggered ?dev 0x08 (device ?s))"
    by (simp add: ready_after_Suc ready_after_0 triggered_def mock_state_def
        mock_device_def mock_registers_def reply_def after_read_def)
  have ra: "ready_after ?dev 0x40 (Suc (Suc 0)) (triggered ?dev 0x10 (device ?s))"
    by (simp add: ready_after_Suc ready_after_0 triggered_def mock_state_def
        mock_device_def mock_registers_def reply_def after_read_def)
  note t = measurement_polls_until_ready [OF len, of ?dev "Suc (Suc 0)"]
  from t [THEN conjunct1, rule_format, OF rp]
  have p: "\<exists>s'. proximity ?dev ?s = Some (0x0102, s') \<and>
         history s' =
           [WriteThenRead [0x8E] [0x83, 0], Write [0x8E, 0x03], Write [0x80, 0x08],
            WriteThenRead [0x80] [0x08, 0], WriteThenRead [0x80] [0x08, 0],
            WriteThenRead [0x80] [0x68, 0], WriteThenRead [0x87] [0x01, 0x02]]"
    by (simp add: measurement_transactions_def poll_transactions_Suc
        poll_transactions_0 polled_Suc polled_0 triggered_def mock_state_def
        mock_device_def mock_registers_def reply_def after_read_def)
  from t [THEN conjunct2, rule_format, OF ra]
  have a: "\<exists>s'. ambient ?dev ?s = Some (0x0102, s') \<and>
         history s' =
           [WriteThenRead [0x8E] [0x83, 0], Write [0x8E, 0x03], Write [0x80, 0x10],
            WriteThenRead [0x80] [0x10, 0], WriteThenRead [0x80] [0x10, 0],
            WriteThenRead [0x80] [0x70, 0], WriteThenRead [0x85] [0x01, 0x02]]"
    by (simp add: measurement_transactions_def poll_transactions_Suc
        poll_transactions_0 polled_Suc polled_0 triggered_def mock_state_def
        mock_device_def mock_registers_def reply_def after_read_def)
  from len rp [unfolded two] p ra [unfolded two] a show ?thesis by blast
qed

subsection \<open>C2: construction and the identity check\<close>

lemma init_eq:
  fixes dev :: "'d i2c_device" and s :: "'d state"
  defines "pid \<equiv> reply dev 0x81 (device s) 0"
  defines "d3 \<equiv> on_write dev [0x82, 0] (on_write dev [0x83, 20] (after_read dev 0x81 (device s)))"
  assumes "length (BUFFER s) = 3"
  shows "init dev s =
    (if uint pid AND 0xF0 \<noteq> 0x20
     then (Inl (RuntimeError ''Failed to find VCNL4010, check wiring!''),
           s\<lparr>BUFFER := [0x81, pid, reply dev 0x81 (device s) 1],
             device := after_read dev 0x81 (device s),
             history := history s @ [WriteThenRead [0x81] [pid, reply dev 0x81 (device s) 1]]\<rparr>)
     else (Inr (),
           s\<lparr>BUFFER := [0x89, 0x08, reply dev 0x8F d3 1],
             device := on_write dev [0x89, 0x08]
                (on_write dev [0x8F, reply dev 0x8F d3 0 AND NOT 0x18] (after_read dev 0x8F d3)),
             history := history s @
               [WriteThenRead [0x81] [pid, reply dev 0x81 (device s) 1],
                Write [0x83, 20], Write [0x82, 0],
                WriteThenRead [0x8F] [reply dev 0x8F d3 0, reply dev 0x8F d3 1],
                Write [0x8F, reply dev 0x8F d3 0 AND NOT 0x18],
                Write [0x89, 0x08]]\<rparr>))"
  using assms(3) byte_of_uint_and [of "reply dev 0x8F d3 0"]
  by (simp add: init_def led_current_setter_def samplerate_setter_def frequency_setter_def
      read_u8_eq write_u8_eq register_defs pid_def d3_def mask_byte)

text \<open>
  C2.  Construction reads the product-ID register 0x81 and raises \<open>RuntimeError\<close> if and
  only if \<open>(value & 0xF0) != 0x20\<close> for the byte read; in that case the read is the only
  transaction.  Otherwise it succeeds, and its transactions after the read are: write 20
  to the LED-current register 0x83, write 0 to the sample-rate register 0x82, the
  read-modify-write of the timing register 0x8F that sets the frequency bits 3-4 to 0, and
  write 0x08 to the interrupt-control register 0x89.  In the witness the product-ID byte
  0x21 succeeds, and 0x31 and 0x1F fail.
\<close>

theorem init_identity_check:
  fixes dev :: "'d i2c_device" and s :: "'d state"
  defines "pid \<equiv> reply dev 0x81 (device s) 0"
  defines "d3 \<equiv> on_write dev [0x82, 0] (on_write dev [0x83, 20] (after_read dev 0x81 (device s)))"
  assumes "length (BUFFER s) = 3"
  shows
    "(fst (init dev s) = Inl (RuntimeError ''Failed to find VCNL4010, check wiring!''))
        = (uint pid AND 0xF0 \<noteq> 0x20) \<and>
     (fst (init dev s) = Inr ()) = (uint pid AND 0xF0 = 0x20) \<and>
     (uint pid AND 0xF0 \<noteq> 0x20 \<longrightarrow>
        history (snd (init dev s)) =
          history s @ [WriteThenRead [0x81] [pid, reply dev 0x81 (device s) 1]]) \<and>
     (uint pid AND 0xF0 = 0x20 \<longrightarrow>
        history (snd (init dev s)) = history s @
          [WriteThenRead [0x81] [pid, reply dev 0x81 (device s) 1],
           Write [0x83, 20], Write [0x82, 0],
           WriteThenRead [0x8F] [reply dev 0x8F d3 0, reply dev 0x8F d3 1],
           Write [0x8F, reply dev 0x8F d3 0 AND NOT 0x18],
           Write [0x89, 0x08]])"
  unfolding pid_def d3_def init_eq [OF assms(3)] by simp

theorem init_identity_check_witness:
  "length (BUFFER (mock_state ((\<lambda>a. 0)(0x81 := 0x21, 0x8F := 0xFF)))) = 3 \<and>
   fst (init (mock_device 0) (mock_state ((\<lambda>a. 0)(0x81 := 0x21, 0x8F := 0xFF)))) = Inr () \<and>
   history (snd (init (mock_device 0) (mock_state ((\<lambda>a. 0)(0x81 := 0x21, 0x8F := 0xFF))))) =
     [WriteThenRead [0x81] [0x21, 0], Write [0x83, 20], Write [0x82, 0],
      WriteThenRead [0x8F] [0xFF, 0], Write [0x8F, 0xE7], Write [0x89, 0x08]] \<and>
   fst (init (mock_device 0) (mock_state ((\<lambda>a. 0)(0x81 := 0x31)))) =
     Inl (RuntimeError ''Failed to find VCNL4010, check wiring!'') \<and>
   history (snd (init (mock_device 0) (mock_state ((\<lambda>a. 0)(0x81 := 0x31))))) =
     [WriteThenRead [0x81] [0x31, 0]] \<and>
   fst (init (mock_device 0) (mock_state ((\<lambda>a. 0)(0x81 := 0x1F)))) =
     Inl (RuntimeError ''Failed to find VCNL4010, check wiring!'') \<and>
   history (snd (init (mock_device 0) (mock_state ((\<lambda>a. 0)(0x81 := 0x1F))))) =
     [WriteThenRead [0x81] [0x1F, 0]]"
proof -
  let ?dev = "mock_device 0"
  let ?ok = "mock_state ((\<lambda>a. 0)(0x81 := 0x21, 0x8F := 0xFF))"
  let ?b1 = "mock_state ((\<lambda>a. 0)(0x81 := 0x31))"
  let ?b2 = "mock_state ((\<lambda>a. 0)(0x81 := 0x1F))"
  have len: "length (BUFFER ?ok) = 3" "length (BUFFER ?b1) = 3" "length (BUFFER ?b2) = 3"
    by (simp_all add: mock_state_def)
  have pid: "reply ?dev 0x81 (device ?ok) 0 = 0x21" "reply ?dev 0x81 (device ?b1) 0 = 0x31"
    "reply ?dev 0x81 (device ?b2) 0 = 0x1F"
    by (simp_all add: mock_simps)
  note ok = init_identity_check [OF len(1), of ?dev, unfolded pid]
  note b1 = init_identity_check [OF len(2), of ?dev, unfolded pid]
  note b2 = init_identity_check [OF len(3), of ?dev, unfolded pid]
  from ok [THEN conjunct2, THEN conjunct1]
  have 1: "fst (init ?dev ?ok) = Inr ()" by simp
  from ok [THEN conjunct2, THEN conjunct2, THEN conjunct2]
  have 2: "history (snd (init ?dev ?ok)) =
     [WriteThenRead [0x81] [0x21, 0], Write [0x83, 20], Write [0x82, 0],
      WriteThenRead [0x8F] [0xFF, 0], Write [0x8F, 0xE7], Write [0x89, 0x08]]"
    by (simp add: mock_simps)
  from b1 [THEN conjunct1]
  have 3: "fst (init ?dev ?b1) = Inl (RuntimeError ''Failed to find VCNL4010, check wiring!'')"
    by simp
  from b1 [THEN conjunct2, THEN conjunct2, THEN conjunct1]
  have 4: "history (snd (init ?dev ?b1)) = [WriteThenRead [0x81] [0x31, 0]]"
    by (simp add: mock_simps)
  from b2 [THEN conjunct1]
  have 5: "fst (init ?dev ?b2) = Inl (RuntimeError ''Failed to find VCNL4010, check wiring!'')"
    by simp
  from b2 [THEN conjunct2, THEN conjunct2, THEN conjunct1]
  have 6: "history (snd (init ?dev ?b2)) = [WriteThenRead [0x81] [0x1F, 0]]"
    by (simp add: mock_simps)
  from len(1) 1 2 3 4 5 6 show ?thesis by blast
qed

subsection \<open>C3: the frequency setter is a read-modify-write\<close>

text \<open>
  C3.  For every byte \<open>t\<close> that the device returns for the timing register 0x8F and
  every \<open>v\<close> in 0..3, the frequency setter succeeds and performs exactly two
  transactions: the read that returned \<open>t\<close>, and a write to 0x8F of the byte \<open>w\<close> whose
  value is \<open>(t & ~0b00011000) | (v << 3)\<close>.  Bits 3-4 of \<open>w\<close> are \<open>v\<close> and every other
  bit of \<open>w\<close> is the bit of \<open>t\<close>.  The witness runs the setter on a register file whose
  timing register holds 0b11100111, with \<open>v = 2\<close>: the byte written is 0b11110111.
\<close>

theorem frequency_setter_preserves_other_bits:
  fixes dev :: "'d i2c_device" and s :: "'d state" and v :: int
  defines "t \<equiv> reply dev 0x8F (device s) 0"
  defines "w \<equiv> (t AND NOT 0x18) OR push_bit 3 (word_of_int v)"
  assumes "length (BUFFER s) = 3" and "0 \<le> v" and "v \<le> 3"
  shows "fst (frequency_setter dev v s) = Inr () \<and>
         history (snd (frequency_setter dev v s)) = history s @
           [WriteThenRead [0x8F] [t, reply dev 0x8F (device s) 1], Write [0x8F, w]] \<and>
         device (snd (frequency_setter dev v s)) =
           on_write dev [0x8F, w] (after_read dev 0x8F (device s)) \<and>
         uint w = (uint t AND NOT 0b00011000) OR push_bit 3 v \<and>
         drop_bit 3 w AND 3 = word_of_int v \<and>
         w AND NOT 0x18 = t AND NOT 0x18"
  using assms(3-5) freq_bits [of v t] freq_int [of v t]
  by (simp add: frequency_setter_def read_u8_eq write_u8_eq VCNL4010_MODTIMING_def t_def w_def
      woi_and woi_or woi_push mask_byte byte_and_255)

theorem frequency_setter_preserves_other_bits_witness:
  "length (BUFFER (mock_state ((\<lambda>a. 0)(0x8F := 0b11100111)))) = 3 \<and> (0 :: int) \<le> 2 \<and> (2 :: int) \<le> 3 \<and>
   fst (frequency_setter (mock_device 0) 2 (mock_state ((\<lambda>a. 0)(0x8F := 0b11100111)))) = Inr () \<and>
   history (snd (frequency_setter (mock_device 0) 2 (mock_state ((\<lambda>a. 0)(0x8F := 0b11100111))))) =
     [WriteThenRead [0x8F] [0b11100111, 0], Write [0x8F, 0b11110111]]"
  using frequency_setter_preserves_other_bits [of "mock_state ((\<lambda>a. 0)(0x8F := 0b11100111))" 2 "mock_device 0"]
  by (simp add: mock_state_def mock_device_def reply_def)

subsection \<open>C4: LED current round trip\<close>

text \<open>
  C4.  Against a device that echoes a byte written to register 0x83 back on the next
  read of 0x83, setting \<open>led_current\<close> to any \<open>v\<close> in 0..20 succeeds and reading
  \<open>led_current\<close> afterwards returns \<open>v\<close>.
\<close>

theorem led_current_round_trip:
  assumes "length (BUFFER s) = 3" and "0 \<le> v" and "v \<le> 20"
    and "\<forall>d b. reply dev 0x83 (on_write dev [0x83, b] d) 0 = b"
  shows "fst (led_current_setter dev v s) = Inr () \<and>
         fst (led_current dev (snd (led_current_setter dev v s))) = v"
  using assms set_then_get [of s v dev] by (simp add: led_current_setter_ok)

theorem led_current_round_trip_witness:
  "length (BUFFER (mock_state (\<lambda>a. 0))) = 3 \<and> (0 :: int) \<le> 20 \<and> (20 :: int) \<le> 20 \<and>
   (\<forall>d b. reply (mock_device 0) 0x83 (on_write (mock_device 0) [0x83, b] d) 0 = b) \<and>
   fst (led_current_setter (mock_device 0) 20 (mock_state (\<lambda>a. 0))) = Inr () \<and>
   fst (led_current (mock_device 0) (snd (led_current_setter (mock_device 0) 20 (mock_state (\<lambda>a. 0))))) = 20"
  using led_current_round_trip [of "mock_state (\<lambda>a. 0)" 20 "mock_device 0"]
  by (simp add: mock_echo mock_state_def)

subsection \<open>C5: LED current in milliamps\<close>

text \<open>
  C5, as stated, fails: the claim lets \<open>x\<close> range over every integer, but setting
  \<open>led_current_mA = 210\<close> raises \<open>AssertionError\<close> (210 // 10 = 21 fails the assertion
  of the \<open>led_current\<close> setter), nothing is written, and reading \<open>led_current\<close> on the
  echoing register file afterwards yields the old register value 0, not 21.
\<close>

theorem led_current_mA_setter_any_x_counterexample:
  "fst (led_current_mA_setter (mock_device 0) 210 (mock_state (\<lambda>a. 0))) = Inl AssertionError \<and>
   fst (led_current (mock_device 0)
          (snd (led_current_mA_setter (mock_device 0) 210 (mock_state (\<lambda>a. 0))))) \<noteq> 210 div 10"
  by (simp add: led_current_mA_setter_def led_current_setter_def led_current_eq mock_state_def
      mock_device_def reply_def)

text \<open>
  C5, amended.  In every state the \<open>led_current_mA\<close> getter returns
  \<open>led_current * 10\<close>; against a device that echoes register 0x83, for every \<open>x\<close> with
  \<open>0 \<le> x \<le> 209\<close> (that is, \<open>x // 10\<close> in 0..20) setting \<open>led_current_mA = x\<close> succeeds
  and reading \<open>led_current\<close> afterwards yields \<open>x // 10\<close>; and setting 123 mA is the same
  operation as setting 120 mA.
\<close>

theorem led_current_mA_quantised:
  assumes "length (BUFFER s) = 3"
    and "\<forall>d b. reply dev 0x83 (on_write dev [0x83, b] d) 0 = b"
  shows "led_current_mA dev s = (fst (led_current dev s) * 10, snd (led_current dev s)) \<and>
         (0 \<le> x \<and> x \<le> 209 \<longrightarrow>
            fst (led_current_mA_setter dev x s) = Inr () \<and>
            fst (led_current dev (snd (led_current_mA_setter dev x s))) = x div 10) \<and>
         led_current_mA_setter dev 123 s = led_current_mA_setter dev 120 s"
proof (intro conjI impI)
  show "led_current_mA dev s = (fst (led_current dev s) * 10, snd (led_current dev s))"
    by (simp add: led_current_mA_def split: prod.splits)
  show "led_current_mA_setter dev 123 s = led_current_mA_setter dev 120 s"
    by (simp add: led_current_mA_setter_def)
next
  assume x: "0 \<le> x \<and> x \<le> 209"
  then have r: "0 \<le> x div 10" "x div 10 \<le> 20" by auto
  show "fst (led_current_mA_setter dev x s) = Inr ()"
    using r by (simp add: led_current_mA_setter_def led_current_setter_def)
  show "fst (led_current dev (snd (led_current_mA_setter dev x s))) = x div 10"
    unfolding led_current_mA_setter_def
    by (rule set_then_get [OF assms(1) r assms(2)])
qed

theorem led_current_mA_quantised_witness:
  "length (BUFFER (mock_state (\<lambda>a. 0))) = 3 \<and>
   (\<forall>d b. reply (mock_device 0) 0x83 (on_write (mock_device 0) [0x83, b] d) 0 = b) \<and>
   (0 :: int) \<le> 123 \<and> (123 :: int) \<le> 209 \<and>
   fst (led_current_mA_setter (mock_device 0) 123 (mock_state (\<lambda>a. 0))) = Inr () \<and>
   fst (led_current (mock_device 0)
          (snd (led_current_mA_setter (mock_device 0) 123 (mock_state (\<lambda>a. 0))))) = 12 \<and>
   fst (led_current_mA (mock_device 0)
          (snd (led_current_mA_setter (mock_device 0) 123 (mock_state (\<lambda>a. 0))))) = 120"
proof -
  let ?s = "mock_state (\<lambda>a. 0)" and ?dev = "mock_device 0"
  let ?s' = "snd (led_current_mA_setter ?dev 123 ?s)"
  have e: "\<forall>d b. reply ?dev 0x83 (on_write ?dev [0x83, b] d) 0 = b"
    by (simp add: mock_echo)
  have l: "length (BUFFER ?s) = 3" by (simp add: mock_state_def)
  have l': "length (BUFFER ?s') = 3"
    using l by (simp add: led_current_mA_setter_def led_current_setter_ok)
  note t = led_current_mA_quantised [OF l e, of 123, THEN conjunct2, THEN conjunct1]
  from t have a: "fst (led_current_mA_setter ?dev 123 ?s) = Inr ()" by simp
  from t have b: "fst (led_current ?dev ?s') = 12" by simp
  note u = led_current_mA_quantised [OF l' e, of 0, THEN conjunct1]
  from u b have c: "fst (led_current_mA ?dev ?s') = 120" by simp
  from a b c e l show ?thesis by simp
qed

subsection \<open>C6: preconditions of the setters\<close>

text \<open>
  C6.  Each configuration setter rejects an out-of-range value before any device
  access: \<open>led_current\<close> outside 0..20, \<open>samplerate\<close> outside 0..7 and \<open>frequency\<close>
  outside 0..3 raise \<open>AssertionError\<close> and return the state they were given, so the
  scratch buffer, the device and the transaction history are unchanged: no bus write
  (and no bus read) has taken place.
\<close>

theorem setters_reject_out_of_range:
  "(\<not> (0 \<le> v \<and> v \<le> 20) \<longrightarrow> led_current_setter dev v s = (Inl AssertionError, s)) \<and>
   (\<not> (0 \<le> v \<and> v \<le> 7) \<longrightarrow> samplerate_setter dev v s = (Inl AssertionError, s)) \<and>
   (\<not> (0 \<le> v \<and> v \<le> 3) \<longrightarrow> frequency_setter dev v s = (Inl AssertionError, s))"
  by (simp add: led_current_setter_def samplerate_setter_def frequency_setter_def)

theorem setters_reject_out_of_range_witness:
  "led_current_setter (mock_device 0) 21 (mock_state (\<lambda>a. 0))
     = (Inl AssertionError, mock_state (\<lambda>a. 0)) \<and>
   samplerate_setter (mock_device 0) 8 (mock_state (\<lambda>a. 0))
     = (Inl AssertionError, mock_state (\<lambda>a. 0)) \<and>
   frequency_setter (mock_device 0) (- 1) (mock_state (\<lambda>a. 0))
     = (Inl AssertionError, mock_state (\<lambda>a. 0))"
  using setters_reject_out_of_range [of 21 "mock_device 0" "mock_state (\<lambda>a. 0)"]
    setters_reject_out_of_range [of 8 "mock_device 0" "mock_state (\<lambda>a. 0)"]
    setters_reject_out_of_range [of "- 1" "mock_device 0" "mock_state (\<lambda>a. 0)"]
  by simp

subsection \<open>C7: the interrupt status is cleared before each trigger\<close>

text \<open>
  C7.  Reading \<open>proximity\<close> (resp. \<open>ambient\<close>) is the polling loop entered in the state
  reached by exactly three transactions: a read of the interrupt-status register 0x8E
  returning a byte \<open>st\<close>, a write of \<open>st AND 0x7F\<close> to 0x8E, and the write of the trigger
  byte to 0x80.  The byte written back is the driver's \<open>status & ~0x80\<close>: its bit 7 is
  clear and each of its bits 0-6 is the bit of \<open>st\<close>.  Whenever the measurement returns, the history of the returned
  state starts with these three transactions, in this order, before anything else.
\<close>

theorem interrupt_cleared_before_trigger:
  fixes dev :: "'d i2c_device" and s :: "'d state"
  defines "st \<equiv> reply dev 0x8E (device s) 0"
  defines "clear \<equiv> [WriteThenRead [0x8E] [st, reply dev 0x8E (device s) 1], Write [0x8E, st AND 0x7F]]"
  assumes "length (BUFFER s) = 3"
  shows
    "proximity dev s = proximity_wait dev
       (s\<lparr>BUFFER := [0x80, 0x08, reply dev 0x8E (device s) 1],
          device := triggered dev 0x08 (device s),
          history := history s @ clear @ [Write [0x80, 0x08]]\<rparr>) \<and>
     ambient dev s = ambient_wait dev
       (s\<lparr>BUFFER := [0x80, 0x10, reply dev 0x8E (device s) 1],
          device := triggered dev 0x10 (device s),
          history := history s @ clear @ [Write [0x80, 0x10]]\<rparr>) \<and>
     (\<forall>v s'. proximity dev s = Some (v, s') \<longrightarrow>
        (\<exists>rest. history s' = history s @ clear @ [Write [0x80, 0x08]] @ rest)) \<and>
     (\<forall>v s'. ambient dev s = Some (v, s') \<longrightarrow>
        (\<exists>rest. history s' = history s @ clear @ [Write [0x80, 0x10]] @ rest)) \<and>
     uint (st AND 0x7F) = uint st AND NOT 0x80 \<and>
     \<not> bit (st AND 0x7F) 7 \<and> (\<forall>n<7. bit (st AND 0x7F) n = bit st n)"
proof -
  let ?sp = "s\<lparr>BUFFER := [0x80, 0x08, reply dev 0x8E (device s) 1],
          device := triggered dev 0x08 (device s),
          history := history s @ clear @ [Write [0x80, 0x08]]\<rparr>"
  let ?sa = "s\<lparr>BUFFER := [0x80, 0x10, reply dev 0x8E (device s) 1],
          device := triggered dev 0x10 (device s),
          history := history s @ clear @ [Write [0x80, 0x10]]\<rparr>"
  have p: "proximity dev s = proximity_wait dev ?sp"
    using proximity_start [OF assms(3), of dev] by (simp add: clear_def st_def)
  have a: "ambient dev s = ambient_wait dev ?sa"
    using ambient_start [OF assms(3), of dev] by (simp add: clear_def st_def)
  have pe: "\<exists>rest. history s' = history s @ clear @ [Write [0x80, 0x08]] @ rest"
    if "proximity dev s = Some (v, s')" for v s'
  proof -
    from that p have "proximity_wait dev ?sp = Some (v, s')" by simp
    from proximity_wait_extends [OF this] show ?thesis by simp
  qed
  have ae: "\<exists>rest. history s' = history s @ clear @ [Write [0x80, 0x10]] @ rest"
    if "ambient dev s = Some (v, s')" for v s'
  proof -
    from that a have "ambient_wait dev ?sa = Some (v, s')" by simp
    from ambient_wait_extends [OF this] show ?thesis by simp
  qed
  note b = cleared_value [of st] cleared_bits [of st]
  from p a pe ae b show ?thesis by blast
qed

theorem interrupt_cleared_before_trigger_witness:
  "length (BUFFER (mock_state mock_registers)) = 3 \<and>
   (\<exists>v s' rest. proximity (mock_device 2) (mock_state mock_registers) = Some (v, s') \<and>
      history s' = [WriteThenRead [0x8E] [0x83, 0], Write [0x8E, 0x03], Write [0x80, 0x08]] @ rest) \<and>
   (\<exists>v s' rest. ambient (mock_device 2) (mock_state mock_registers) = Some (v, s') \<and>
      history s' = [WriteThenRead [0x8E] [0x83, 0], Write [0x8E, 0x03], Write [0x80, 0x10]] @ rest)"
proof -
  let ?dev = "mock_device 2" and ?s = "mock_state mock_registers"
  have len: "length (BUFFER ?s) = 3"
    by (simp add: mock_state_def)
  note t = interrupt_cleared_before_trigger [OF len, of ?dev]
  from mock_proximity [of mock_registers] obtain v s' where p: "proximity ?dev ?s = Some (v, s')"
    by blast
  from t [THEN conjunct2, THEN conjunct2, THEN conjunct1, rule_format, OF p]
  have "\<exists>rest. history s' =
      [WriteThenRead [0x8E] [0x83, 0], Write [0x8E, 0x03], Write [0x80, 0x08]] @ rest"
    by (simp add: mock_state_def mock_device_def mock_registers_def reply_def)
  with p have a: "\<exists>v s' rest. proximity ?dev ?s = Some (v, s') \<and>
      history s' = [WriteThenRead [0x8E] [0x83, 0], Write [0x8E, 0x03], Write [0x80, 0x08]] @ rest"
    by blast
  from mock_ambient [of mock_registers] obtain w u' where q: "ambient ?dev ?s = Some (w, u')"
    by blast
  from t [THEN conjunct2, THEN conjunct2, THEN conjunct2, THEN conjunct1, rule_format, OF q]
  have "\<exists>rest. history u' =
      [WriteThenRead [0x8E] [0x83, 0], Write [0x8E, 0x03], Write [0x80, 0x10]] @ rest"
    by (simp add: mock_state_def mock_device_def mock_registers_def reply_def)
  with q have b: "\<exists>v s' rest. ambient ?dev ?s = Some (v, s') \<and>
      history s' = [WriteThenRead [0x8E] [0x83, 0], Write [0x8E, 0x03], Write [0x80, 0x10]] @ rest"
    by blast
  from len a b show ?thesis by blast
qed

subsection \<open>C8: ambient light in lux\<close>

text \<open>
  C8.  For floats of at least 16 significant bits (every Python float), whenever
  \<open>ambient\<close> returns \<open>raw\<close>, \<open>raw\<close> is in 0..65535 and \<open>ambient_lux\<close> returns, with the same
  final state, a float whose value is exactly \<open>raw * 0.25\<close>: neither the conversion nor
  the multiplication rounds.  The value depends on \<open>raw\<close> alone, whatever the device and
  its configuration registers are.  Where \<open>ambient\<close> does not return, neither does
  \<open>ambient_lux\<close>, and against a device that becomes ready after \<open>N\<close> polls both return.
  Raw 0 gives 0 and raw 65535 gives 16383.75.
\<close>

theorem ambient_lux_exact:
  assumes "length (BUFFER s) = 3" and "16 \<le> p"
  shows
    "(\<forall>raw s'. ambient dev s = Some (raw, s') \<longrightarrow>
        0 \<le> raw \<and> raw \<le> 65535 \<and>
        (\<exists>lux. ambient_lux p dev s = Some (lux, s') \<and> float_value lux = of_int raw * 0.25)) \<and>
     (ambient dev s = None \<longrightarrow> ambient_lux p dev s = None) \<and>
     (ready_after dev 0x40 N (triggered dev 0x10 (device s)) \<longrightarrow>
        (\<exists>raw lux s'. ambient dev s = Some (raw, s') \<and> ambient_lux p dev s = Some (lux, s') \<and>
           float_value lux = of_int raw * 0.25)) \<and>
     (\<forall>raw. 0 \<le> raw \<and> raw \<le> 65535 \<longrightarrow>
        float_value (float_mul p (float_of_int p raw) VCNL4010_AMBIENT_LUX_SCALE)
          = of_int raw * 0.25) \<and>
     float_value (float_mul p (float_of_int p 0) VCNL4010_AMBIENT_LUX_SCALE) = 0 \<and>
     float_value (float_mul p (float_of_int p 65535) VCNL4010_AMBIENT_LUX_SCALE) = 16383.75"
proof -
  have ret: "0 \<le> raw \<and> raw \<le> 65535 \<and>
        (\<exists>lux. ambient_lux p dev s = Some (lux, s') \<and> float_value lux = of_int raw * 0.25)"
    if r: "ambient dev s = Some (raw, s')" for raw s'
  proof -
    from r have "ambient_wait dev
       (s\<lparr>BUFFER := [0x80, 0x10, reply dev 0x8E (device s) 1],
          device := triggered dev 0x10 (device s),
          history := history s @
            [WriteThenRead [0x8E] [reply dev 0x8E (device s) 0, reply dev 0x8E (device s) 1],
             Write [0x8E, reply dev 0x8E (device s) 0 AND 0x7F],
             Write [0x80, 0x10]]\<rparr>) = Some (raw, s')"
      by (simp add: ambient_start [OF assms(1)])
    from ambient_wait_range [OF this] have range: "0 \<le> raw" "raw \<le> 65535"
      by simp_all
    from r have "ambient_lux p dev s =
        Some (float_mul p (float_of_int p raw) VCNL4010_AMBIENT_LUX_SCALE, s')"
      by (simp add: ambient_lux_def)
    with range lux_exact(2) [OF range assms(2)] show ?thesis
      by simp
  qed
  have none: "ambient dev s = None \<longrightarrow> ambient_lux p dev s = None"
    by (simp add: ambient_lux_def)
  have total: "\<exists>raw lux s'. ambient dev s = Some (raw, s') \<and> ambient_lux p dev s = Some (lux, s') \<and>
           float_value lux = of_int raw * 0.25"
    if "ready_after dev 0x40 N (triggered dev 0x10 (device s))"
  proof -
    from that assms(1) obtain raw s' where "ambient dev s = Some (raw, s')"
      by (simp add: ambient_start ambient_wait_ready)
    with ret [OF this] show ?thesis
      by blast
  qed
  have all: "\<forall>raw. 0 \<le> raw \<and> raw \<le> 65535 \<longrightarrow>
        float_value (float_mul p (float_of_int p raw) VCNL4010_AMBIENT_LUX_SCALE)
          = of_int raw * 0.25"
    using lux_exact(2) [OF _ _ assms(2)] by blast
  have z: "float_value (float_mul p (float_of_int p 0) VCNL4010_AMBIENT_LUX_SCALE) = 0"
    using lux_exact(2) [OF _ _ assms(2), of 0] by simp
  have m: "float_value (float_mul p (float_of_int p 65535) VCNL4010_AMBIENT_LUX_SCALE) = 16383.75"
    using lux_exact(2) [OF _ _ assms(2), of 65535] by simp
  from ret none total all z m show ?thesis
    by blast
qed

theorem ambient_lux_exact_witness:
  "length (BUFFER (mock_state (\<lambda>a. 0xFF))) = 3 \<and> (16 :: nat) \<le> 53 \<and>
   (\<exists>lux s'. ambient (mock_device 2) (mock_state (\<lambda>a. 0xFF)) = Some (65535, s') \<and>
      ambient_lux 53 (mock_device 2) (mock_state (\<lambda>a. 0xFF)) = Some (lux, s') \<and>
      float_value lux = 16383.75) \<and>
   (\<exists>lux s'. ambient (mock_device 2) (mock_state (\<lambda>a. 0)) = Some (0, s') \<and>
      ambient_lux 24 (mock_device 2) (mock_state (\<lambda>a. 0)) = Some (lux, s') \<and>
      float_value lux = 0)"
proof -
  let ?dev = "mock_device 2"
  have len: "length (BUFFER (mock_state (\<lambda>a. 0xFF))) = 3" "length (BUFFER (mock_state (\<lambda>a. 0))) = 3"
    by (simp_all add: mock_simps)
  from mock_ambient [of "\<lambda>a. 0xFF"] obtain s1
    where a1: "ambient ?dev (mock_state (\<lambda>a. 0xFF)) = Some (65535, s1)"
    by auto
  from ambient_lux_exact [OF len(1), of 53 ?dev, THEN conjunct1, rule_format, OF _ a1]
  have 1: "\<exists>lux. ambient_lux 53 ?dev (mock_state (\<lambda>a. 0xFF)) = Some (lux, s1) \<and>
      float_value lux = 16383.75"
    by simp
  from mock_ambient [of "\<lambda>a. 0"] obtain s0
    where a0: "ambient ?dev (mock_state (\<lambda>a. 0)) = Some (0, s0)"
    by auto
  from ambient_lux_exact [OF len(2), of 24 ?dev, THEN conjunct1, rule_format, OF _ a0]
  have 0: "\<exists>lux. ambient_lux 24 ?dev (mock_state (\<lambda>a. 0)) = Some (lux, s0) \<and>
      float_value lux = 0"
    by simp
  from len(1) a1 1 a0 0 show ?thesis
    by auto
qed

subsection \<open>C9: the milliamp setter has no range check of its own\<close>

text \<open>
  C9.  The \<open>led_current_mA\<close> setter has no range check of its own: it is the
  \<open>led_current\<close> setter applied to \<open>x // 10\<close>.  It succeeds exactly for
  \<open>0 \<le> x \<le> 209\<close>, which includes 201..209 above the documented 0-200 mA range, and
  then writes \<open>x // 10\<close> to register 0x83; for every other \<open>x\<close> (210 and above, and every
  negative \<open>x\<close>, whose floor quotient is negative) it raises \<open>AssertionError\<close> and leaves
  the state unchanged.
\<close>

theorem led_current_mA_setter_range:
  "led_current_mA_setter dev x s = led_current_setter dev (x div 10) s \<and>
   (fst (led_current_mA_setter dev x s) = Inr ()) = (0 \<le> x \<and> x \<le> 209) \<and>
   (fst (led_current_mA_setter dev x s) = Inl AssertionError) = (x < 0 \<or> 210 \<le> x) \<and>
   (x < 0 \<or> 210 \<le> x \<longrightarrow> snd (led_current_mA_setter dev x s) = s) \<and>
   (length (BUFFER s) = 3 \<and> 0 \<le> x \<and> x \<le> 209 \<longrightarrow>
      history (snd (led_current_mA_setter dev x s)) =
        history s @ [Write [0x83, word_of_int (x div 10)]])"
proof -
  have iff: "(0 \<le> x div 10 \<and> x div 10 \<le> 20) = (0 \<le> x \<and> x \<le> 209)" by auto
  have "history (snd (led_current_setter dev (x div 10) s)) =
        history s @ [Write [0x83, word_of_int (x div 10)]]"
    if "length (BUFFER s) = 3" and "0 \<le> x \<and> x \<le> 209"
    using that iff by (simp add: led_current_setter_ok)
  moreover have "(fst (led_current_setter dev (x div 10) s) = Inr ()) = (0 \<le> x \<and> x \<le> 209)"
    unfolding led_current_setter_def iff by simp
  moreover have "(fst (led_current_setter dev (x div 10) s) = Inl AssertionError) = (x < 0 \<or> 210 \<le> x)"
    unfolding led_current_setter_def iff by auto
  moreover have "x < 0 \<or> 210 \<le> x \<longrightarrow> snd (led_current_setter dev (x div 10) s) = s"
    unfolding led_current_setter_def iff by auto
  ultimately show ?thesis unfolding led_current_mA_setter_def by blast
qed

theorem led_current_mA_setter_range_witness:
  "fst (led_current_mA_setter (mock_device 0) 209 (mock_state (\<lambda>a. 0))) = Inr () \<and>
   history (snd (led_current_mA_setter (mock_device 0) 209 (mock_state (\<lambda>a. 0)))) = [Write [0x83, 20]] \<and>
   led_current_mA_setter (mock_device 0) 210 (mock_state (\<lambda>a. 0)) = (Inl AssertionError, mock_state (\<lambda>a. 0)) \<and>
   led_current_mA_setter (mock_device 0) (- 1) (mock_state (\<lambda>a. 0)) = (Inl AssertionError, mock_state (\<lambda>a. 0))"
proof -
  let ?s = "mock_state (\<lambda>a. 0)" and ?dev = "mock_device 0"
  have l: "length (BUFFER ?s) = 3" "history ?s = []" by (simp_all add: mock_state_def)
  note t = led_current_mA_setter_range [of ?dev 209 ?s, THEN conjunct2]
  from t have a: "fst (led_current_mA_setter ?dev 209 ?s) = Inr ()" by simp
  from t l have a': "history (snd (led_current_mA_setter ?dev 209 ?s)) = [Write [0x83, 20]]"
    by simp
  note u = led_current_mA_setter_range [of ?dev 210 ?s, THEN conjunct2]
  from u have "fst (led_current_mA_setter ?dev 210 ?s) = Inl AssertionError"
    and "snd (led_current_mA_setter ?dev 210 ?s) = ?s" by simp_all
  then have b: "led_current_mA_setter ?dev 210 ?s = (Inl AssertionError, ?s)"
    by (simp add: prod_eq_iff)
  note w = led_current_mA_setter_range [of ?dev "- 1" ?s, THEN conjunct2]
  from w have "fst (led_current_mA_setter ?dev (- 1) ?s) = Inl AssertionError"
    and "snd (led_current_mA_setter ?dev (- 1) ?s) = ?s" by simp_all
  then have c: "led_current_mA_setter ?dev (- 1) ?s = (Inl AssertionError, ?s)"
    by (simp add: prod_eq_iff)
  from a a' b c show ?thesis by simp
qed

subsection \<open>C10: what the getters return\<close>

text \<open>
  C10.  For every byte \<open>b\<close> the device returns for the register read, the \<open>samplerate\<close>
  getter returns \<open>b\<close> unmasked, so any value in 0..255, and a register file holding 0xFF
  makes it return 255, outside the index range 0..7; the \<open>led_current\<close> getter returns
  \<open>b & 0x3F\<close>, always in 0..63; the \<open>frequency\<close> getter returns \<open>(b >> 3) & 0x03\<close>, always
  in 0..3.
\<close>

theorem getters_masking:
  assumes "length (BUFFER s) = 3"
  shows
    "fst (samplerate dev s) = uint (reply dev 0x82 (device s) 0) \<and>
     0 \<le> fst (samplerate dev s) \<and> fst (samplerate dev s) \<le> 255 \<and>
     fst (samplerate (mock_device 0) (mock_state (\<lambda>a. 0xFF))) = 255 \<and>
     fst (led_current dev s) = uint (reply dev 0x83 (device s) 0) AND 0x3F \<and>
     0 \<le> fst (led_current dev s) \<and> fst (led_current dev s) \<le> 63 \<and>
     fst (frequency dev s) = drop_bit 3 (uint (reply dev 0x8F (device s) 0)) AND 0x03 \<and>
     0 \<le> fst (frequency dev s) \<and> fst (frequency dev s) \<le> 3"
proof -
  have m: "length (BUFFER (mock_state (\<lambda>a. 0xFF))) = 3"
    by (simp add: mock_state_def)
  have "fst (samplerate (mock_device 0) (mock_state (\<lambda>a. 0xFF))) = 255"
    unfolding samplerate_eq [OF m] by (simp add: mock_simps)
  moreover have "fst (samplerate dev s) \<le> 255"
    using uint_byte_less [of "reply dev 0x82 (device s) 0"] by (simp add: samplerate_eq [OF assms])
  moreover have "0 \<le> fst (samplerate dev s)"
    by (simp add: samplerate_eq [OF assms])
  moreover have "fst (led_current dev s) \<le> 63"
    unfolding led_current_eq [OF assms] by (rule AND_upper2) simp
  moreover have "0 \<le> fst (led_current dev s)"
    by (simp add: led_current_eq [OF assms])
  moreover have "fst (frequency dev s) \<le> 3"
    unfolding frequency_eq [OF assms] by (rule AND_upper2) simp
  moreover have "0 \<le> fst (frequency dev s)"
    by (simp add: frequency_eq [OF assms])
  ultimately show ?thesis
    using samplerate_eq [OF assms] led_current_eq [OF assms] frequency_eq [OF assms] by blast
qed

theorem getters_masking_witness:
  "length (BUFFER (mock_state (\<lambda>a. 0xFF))) = 3 \<and>
   fst (samplerate (mock_device 0) (mock_state (\<lambda>a. 0xFF))) = 255 \<and>
   fst (led_current (mock_device 0) (mock_state (\<lambda>a. 0xFF))) = 63 \<and>
   fst (frequency (mock_device 0) (mock_state (\<lambda>a. 0xFF))) = 3"
proof -
  have m: "length (BUFFER (mock_state (\<lambda>a. 0xFF))) = 3"
    by (simp add: mock_state_def)
  note t = getters_masking [OF m, of "mock_device 0"]
  have r: "reply (mock_device 0) a (device (mock_state (\<lambda>a. 0xFF))) 0 = 0xFF" if "a \<noteq> 0x80" for a
    using that by (simp add: mock_simps)
  from t [THEN conjunct1] have 1: "fst (samplerate (mock_device 0) (mock_state (\<lambda>a. 0xFF))) = 255"
    by (simp add: r)
  from t [THEN conjunct2, THEN conjunct2, THEN conjunct2, THEN conjunct2, THEN conjunct1]
  have 2: "fst (led_current (mock_device 0) (mock_state (\<lambda>a. 0xFF))) = 63"
    by (simp add: r)
  from t [THEN conjunct2, THEN conjunct2, THEN conjunct2, THEN conjunct2, THEN conjunct2,
      THEN conjunct2, THEN conjunct2, THEN conjunct1]
  have 3: "fst (frequency (mock_device 0) (mock_state (\<lambda>a. 0xFF))) = 3"
    by (simp add: r)
  from m 1 2 3 show ?thesis by blast
qed

end
